theory Spec2Isabelle
  imports Main "HOL-Library.Sublist"
begin

section \<open>Values of the client\<close>

text \<open>
  The browser client (\<^verbatim>\<open>src/public/client.js\<close>) keeps its whole application state
  in Immutable.js collections built from JSON. A value is a JavaScript primitive, an
  \<^verbatim>\<open>Immutable.List\<close> or an \<^verbatim>\<open>Immutable.Map\<close> with string keys. A map is an association
  list in insertion order, the order in which Immutable iterates a small map and in which
  \<^verbatim>\<open>JSON.stringify\<close> prints it. Numbers are the integer-valued ones below \<open>10\<^sup>2\<^sup>1\<close> in
  magnitude, which JavaScript prints in plain decimal.
  \<^verbatim>\<open>undefined\<close> is a value of its own: it is what \<^verbatim>\<open>get\<close> answers for a missing key.
\<close>

datatype jsval =
    JUndefined
  | JNull
  | JBool bool
  | JNum int
  | JStr string
  | JList "jsval list"
  | JMap "(string \<times> jsval) list"

type_synonym jsobj = "(string \<times> jsval) list"

text \<open>Every failure of the client is a \<^verbatim>\<open>TypeError\<close>: a method called on a value
  that does not have it, or a property read from \<^verbatim>\<open>undefined\<close>.\<close>

datatype error = TypeError

definition bindE :: "error + 'a \<Rightarrow> ('a \<Rightarrow> error + 'b) \<Rightarrow> error + 'b" where
  "bindE m f = (case m of Inl e \<Rightarrow> Inl e | Inr x \<Rightarrow> f x)"

fun mapE :: "('a \<Rightarrow> error + 'b) \<Rightarrow> 'a list \<Rightarrow> error + 'b list" where
  "mapE f [] = Inr []"
| "mapE f (x # xs) = bindE (f x) (\<lambda>y. bindE (mapE f xs) (\<lambda>ys. Inr (y # ys)))"

text \<open>JavaScript truthiness: \<^verbatim>\<open>undefined\<close>, \<^verbatim>\<open>null\<close>, \<^verbatim>\<open>false\<close>, \<^verbatim>\<open>0\<close> and the empty
  string are falsy; every collection, also an empty one, is truthy.\<close>

fun truthy :: "jsval \<Rightarrow> bool" where
  "truthy JUndefined = False"
| "truthy JNull = False"
| "truthy (JBool b) = b"
| "truthy (JNum n) = (n \<noteq> 0)"
| "truthy (JStr s) = (s \<noteq> [])"
| "truthy (JList xs) = True"
| "truthy (JMap kvs) = True"

fun nullish :: "jsval \<Rightarrow> bool" where
  "nullish JUndefined = True"
| "nullish JNull = True"
| "nullish v = False"

fun isMap :: "jsval \<Rightarrow> bool" where
  "isMap (JMap kvs) = True"
| "isMap v = False"

text \<open>\<^verbatim>\<open>a || b\<close> on values.\<close>

definition js_or :: "jsval \<Rightarrow> jsval \<Rightarrow> jsval" where
  "js_or a b = (if truthy a then a else b)"

text \<open>\<^verbatim>\<open>a === b\<close>: primitives compare by value, collections by reference. The states of
  the client are parsed from JSON, so two collections read from different places of a
  state are never the same object.\<close>

fun strict_eq :: "jsval \<Rightarrow> jsval \<Rightarrow> bool" where
  "strict_eq JUndefined JUndefined = True"
| "strict_eq JNull JNull = True"
| "strict_eq (JBool a) (JBool b) = (a = b)"
| "strict_eq (JNum a) (JNum b) = (a = b)"
| "strict_eq (JStr a) (JStr b) = (a = b)"
| "strict_eq a b = False"

subsection \<open>Reading and writing collections\<close>

definition map_get :: "jsobj \<Rightarrow> string \<Rightarrow> jsval" where
  "map_get kvs k = (case map_of kvs k of None \<Rightarrow> JUndefined | Some v \<Rightarrow> v)"

definition is_digit :: "char \<Rightarrow> bool" where
  "is_digit c = (48 \<le> (of_char c :: nat) \<and> (of_char c :: nat) \<le> 57)"

definition int_of_digits :: "string \<Rightarrow> int" where
  "int_of_digits s = foldl (\<lambda>n c. 10 * n + ((of_char c :: int) - 48)) 0 s"

text \<open>A key addresses a list only when it is the canonical decimal text of an index
  below \<open>2\<^sup>3\<^sup>2 - 1\<close>; for any other key \<^verbatim>\<open>List.get\<close> answers \<^verbatim>\<open>undefined\<close>.\<close>

definition index_of_key :: "string \<Rightarrow> nat option" where
  "index_of_key k =
     (if k \<noteq> [] \<and> list_all is_digit k \<and> (hd k \<noteq> CHR ''0'' \<or> length k = 1)
         \<and> int_of_digits k < 4294967295
      then Some (nat (int_of_digits k)) else None)"

text \<open>\<^verbatim>\<open>v.get(k)\<close>. Primitives have no \<^verbatim>\<open>get\<close>: the call throws.\<close>

fun get_method :: "jsval \<Rightarrow> string \<Rightarrow> error + jsval" where
  "get_method (JMap kvs) k = Inr (map_get kvs k)"
| "get_method (JList xs) k =
     (case index_of_key k of
        None \<Rightarrow> Inr JUndefined
      | Some i \<Rightarrow> Inr (if i < length xs then xs ! i else JUndefined))"
| "get_method v k = Inl TypeError"

text \<open>\<^verbatim>\<open>v?.get(k)\<close>: \<^verbatim>\<open>undefined\<close> when \<open>v\<close> is \<^verbatim>\<open>null\<close> or \<^verbatim>\<open>undefined\<close>.\<close>

definition opt_get_method :: "jsval \<Rightarrow> string \<Rightarrow> error + jsval" where
  "opt_get_method v k = (if nullish v then Inr JUndefined else get_method v k)"

text \<open>\<^verbatim>\<open>Map.set\<close> replaces the value of a key where it stands and appends a new key.\<close>

fun map_set :: "jsobj \<Rightarrow> string \<Rightarrow> jsval \<Rightarrow> jsobj" where
  "map_set [] k v = [(k, v)]"
| "map_set ((k', old) # kvs) k v =
     (if k = k' then (k', v) # kvs else (k', old) # map_set kvs k v)"

fun set_method :: "jsval \<Rightarrow> string \<Rightarrow> jsval \<Rightarrow> error + jsval" where
  "set_method (JMap kvs) k v = Inr (JMap (map_set kvs k v))"
| "set_method (JList xs) k v =
     (case index_of_key k of
        None \<Rightarrow> Inr (JList xs)
      | Some i \<Rightarrow>
          Inr (JList (if i < length xs then xs[i := v]
                      else xs @ replicate (i - length xs) JUndefined @ [v])))"
| "set_method x k v = Inl TypeError"

subsection \<open>Deep merge\<close>

text \<open>
  \<^verbatim>\<open>state.mergeDeep(newState)\<close> is Immutable's. It walks the entries of the patch in
  order; a key the state lacks is added, and for a key it has the old and the new value
  go through the deep merger: two maps are merged recursively, two lists are concatenated,
  and in every other case the new value replaces the old one. This is the merge of
  Immutable 4; Immutable 3 merges two lists index by index instead, and like Immutable 4
  it keeps the old list when the new one is empty.
\<close>

fun deepMerger :: "jsval \<Rightarrow> jsval \<Rightarrow> jsval"
  and mergeKey :: "string \<Rightarrow> jsval \<Rightarrow> jsobj \<Rightarrow> jsobj"
  and mergeDeep :: "jsobj \<Rightarrow> jsobj \<Rightarrow> jsobj" where
  "deepMerger (JMap c) (JMap p) = JMap (mergeDeep c p)"
| "deepMerger (JList xs) (JList ys) = JList (xs @ ys)"
| "deepMerger old new = new"
| "mergeKey k v [] = [(k, v)]"
| "mergeKey k v ((k', old) # c) =
     (if k = k' then (k', deepMerger old v) # c else (k', old) # mergeKey k v c)"
| "mergeDeep c [] = c"
| "mergeDeep c ((k, v) # p) = mergeDeep (mergeKey k v c) p"

subsection \<open>Text of a value\<close>

fun string_of_nat :: "nat \<Rightarrow> string" where
  "string_of_nat n =
     (if n < 10 then [char_of (48 + n)]
      else string_of_nat (n div 10) @ [char_of (48 + n mod 10)])"

declare string_of_nat.simps [simp del]

definition number_to_string :: "int \<Rightarrow> string" where
  "number_to_string i =
     (if i < 0 then CHR ''-'' # string_of_nat (nat (- i)) else string_of_nat (nat i))"

fun join :: "string \<Rightarrow> string list \<Rightarrow> string" where
  "join sep [] = []"
| "join sep [x] = x"
| "join sep (x # y # ys) = x @ sep @ join sep (y # ys)"

definition hex_digit :: "nat \<Rightarrow> char" where
  "hex_digit n = (if n < 10 then char_of (48 + n) else char_of (87 + n))"

text \<open>The escapes of \<^verbatim>\<open>JSON.stringify\<close> inside a string.\<close>

definition json_escape :: "char \<Rightarrow> string" where
  "json_escape c =
     (if c = CHR 0x22 then [CHR 0x5C, CHR 0x22]
      else if c = CHR 0x5C then [CHR 0x5C, CHR 0x5C]
      else if c = CHR 0x08 then [CHR 0x5C, CHR ''b'']
      else if c = CHR 0x09 then [CHR 0x5C, CHR ''t'']
      else if c = CHR 0x0A then [CHR 0x5C, CHR ''n'']
      else if c = CHR 0x0C then [CHR 0x5C, CHR ''f'']
      else if c = CHR 0x0D then [CHR 0x5C, CHR ''r'']
      else if (of_char c :: nat) < 32
        then [CHR 0x5C, CHR ''u'', CHR ''0'', CHR ''0'',
              hex_digit ((of_char c :: nat) div 16), hex_digit ((of_char c :: nat) mod 16)]
      else [c])"

definition json_quote :: "string \<Rightarrow> string" where
  "json_quote s = CHR 0x22 # concat (map json_escape s) @ [CHR 0x22]"

text \<open>\<^verbatim>\<open>JSON.stringify\<close> of a value other than \<^verbatim>\<open>undefined\<close>. An \<^verbatim>\<open>undefined\<close> element
  of an array prints as \<^verbatim>\<open>null\<close>; an \<^verbatim>\<open>undefined\<close> member of an object is left out.
  Members print in the order of the association list, which is the order of JavaScript for
  a map of at most eight entries none of whose keys is an array index.\<close>

fun json_text :: "jsval \<Rightarrow> string"
  and json_elements :: "jsval list \<Rightarrow> string list"
  and json_members :: "jsobj \<Rightarrow> string list" where
  "json_text JUndefined = ''null''"
| "json_text JNull = ''null''"
| "json_text (JBool b) = (if b then ''true'' else ''false'')"
| "json_text (JNum n) = number_to_string n"
| "json_text (JStr s) = json_quote s"
| "json_text (JList xs) = ''['' @ join '','' (json_elements xs) @ '']''"
| "json_text (JMap kvs) = ''{'' @ join '','' (json_members kvs) @ ''}''"
| "json_elements [] = []"
| "json_elements (x # xs) = json_text x # json_elements xs"
| "json_members [] = []"
| "json_members ((k, v) # kvs) =
     (if v = JUndefined then json_members kvs
      else (json_quote k @ '':'' @ json_text v) # json_members kvs)"

definition json_stringify :: "jsval \<Rightarrow> string option" where
  "json_stringify v = (if v = JUndefined then None else Some (json_text v))"

text \<open>\<^verbatim>\<open>String(v)\<close>, the conversion a template literal applies to \<^verbatim>\<open>${v}\<close>. A collection
  prints as Immutable's \<^verbatim>\<open>toString\<close> does: \<^verbatim>\<open>List [ 1, "a" ]\<close>, \<^verbatim>\<open>Map { "k": 1 }\<close>.\<close>

fun js_to_string :: "jsval \<Rightarrow> string"
  and list_items :: "jsval list \<Rightarrow> string list"
  and map_items :: "jsobj \<Rightarrow> string list" where
  "js_to_string JUndefined = ''undefined''"
| "js_to_string JNull = ''null''"
| "js_to_string (JBool b) = (if b then ''true'' else ''false'')"
| "js_to_string (JNum n) = number_to_string n"
| "js_to_string (JStr s) = s"
| "js_to_string (JList xs) =
     (if xs = [] then ''List []'' else ''List [ '' @ join '', '' (list_items xs) @ '' ]'')"
| "js_to_string (JMap kvs) =
     (if kvs = [] then ''Map {}'' else ''Map { '' @ join '', '' (map_items kvs) @ '' }'')"
| "list_items [] = []"
| "list_items (x # xs) =
     (case x of JStr s \<Rightarrow> json_quote s | _ \<Rightarrow> js_to_string x) # list_items xs"
| "map_items [] = []"
| "map_items ((k, v) # kvs) =
     (json_quote k @ '': '' @ (case v of JStr s \<Rightarrow> json_quote s | _ \<Rightarrow> js_to_string v))
       # map_items kvs"

section \<open>The Render Engine\<close>

abbreviation nl :: string where
  "nl \<equiv> [CHR 0x0A]"

text \<open>\<^verbatim>\<open>convertToJSON\<close>: \<^verbatim>\<open>JSON.stringify(obj).replace(/"/g, "'")\<close>. For \<^verbatim>\<open>undefined\<close>,
  \<^verbatim>\<open>JSON.stringify\<close> answers \<^verbatim>\<open>undefined\<close> and \<^verbatim>\<open>replace\<close> throws.\<close>

definition convertToJSON :: "jsval \<Rightarrow> error + string" where
  "convertToJSON obj =
     (case json_stringify obj of
        None \<Rightarrow> Inl TypeError
      | Some s \<Rightarrow> Inr (map (\<lambda>c. if c = CHR 0x22 then CHR 0x27 else c) s))"

definition createGreeting :: "jsval \<Rightarrow> string" where
  \<open>createGreeting name =
     (if truthy name
      then concat [''<h2 class="display-4">Welcome, '', js_to_string name, ''!</h2>'']
      else ''<h2 class="display-4">Hello!</h2>'')\<close>

definition showLoadingSpinner :: string where
  \<open>showLoadingSpinner = concat
     [nl,
      ''  <div class="d-flex justify-content-center my-4">'', nl,
      ''    <div class="spinner-border text-primary" style="width: 3rem; height: 3rem;" role="status">'', nl,
      ''      <span class="visually-hidden">Loading...</span>'', nl,
      ''    </div>'', nl,
      ''  </div>'', nl]\<close>

subsection \<open>Photo cards\<close>

text \<open>The three display values of \<^verbatim>\<open>createPhotoCard\<close>, its local constants
  \<^verbatim>\<open>camera\<close>, \<^verbatim>\<open>date\<close> and \<^verbatim>\<open>rover\<close>. \<open>cameraFullName\<close> is
  \<^verbatim>\<open>photo.get("camera")?.get("full_name")\<close> and \<open>roverNameOf\<close> is
  \<^verbatim>\<open>photo.get("rover")?.get("name")\<close>, the operands of the two \<^verbatim>\<open>||\<close>.\<close>

definition cameraFullName :: "jsval \<Rightarrow> error + jsval" where
  "cameraFullName photo =
     bindE (get_method photo ''camera'') (\<lambda>c. opt_get_method c ''full_name'')"

definition photoCamera :: "jsval \<Rightarrow> error + jsval" where
  "photoCamera photo =
     bindE (cameraFullName photo) (\<lambda>n. Inr (js_or n (JStr ''Unknown Camera'')))"

definition photoDate :: "jsval \<Rightarrow> error + jsval" where
  "photoDate photo =
     bindE (get_method photo ''earth_date'') (\<lambda>d.
     Inr (js_or d (JStr ''Unknown Date'')))"

definition roverNameOf :: "jsval \<Rightarrow> error + jsval" where
  "roverNameOf photo =
     bindE (get_method photo ''rover'') (\<lambda>r. opt_get_method r ''name'')"

definition photoRover :: "jsval \<Rightarrow> error + jsval" where
  "photoRover photo =
     bindE (roverNameOf photo) (\<lambda>n. Inr (js_or n (JStr ''Unknown Rover'')))"

definition photoDescription :: "string \<Rightarrow> string \<Rightarrow> string \<Rightarrow> string" where
  \<open>photoDescription camera date rover = concat
     [nl,
      ''    Captured by the '', camera, '' camera on '', date, ''.<br /><br />'', nl,
      ''    This image shows the Martian landscape as seen by the '', rover, '' rover.'', nl,
      ''  '']\<close>

definition photoCardMarkup :: "string \<Rightarrow> string \<Rightarrow> string \<Rightarrow> string \<Rightarrow> string" where
  \<open>photoCardMarkup url camera date rover = concat
     [nl,
      ''    <div class="col mb-4">'', nl,
      ''      <div class="card border-secondary shadow-sm">'', nl,
      ''        <img src="'', url, ''" class="card-img-top" alt="'', camera, ''" style="object-fit: cover; height: 200px; width: 100%;">'', nl,
      ''        <div class="card-body">'', nl,
      ''          <h5 class="card-title">'', rover, '' - '', camera, ''</h5>'', nl,
      ''          <p class="card-text">'', photoDescription camera date rover, ''</p>'', nl,
      ''        </div>'', nl,
      ''      </div>'', nl,
      ''    </div>'', nl,
      ''  '']\<close>

definition createPhotoCard :: "jsval \<Rightarrow> error + string" where
  "createPhotoCard photo =
     bindE (get_method photo ''img_src'') (\<lambda>url.
     bindE (photoCamera photo) (\<lambda>camera.
     bindE (photoDate photo) (\<lambda>date.
     bindE (photoRover photo) (\<lambda>rover.
     Inr (photoCardMarkup (js_to_string url) (js_to_string camera)
            (js_to_string date) (js_to_string rover))))))"

subsection \<open>Rover cards\<close>

definition roverButtonLabel :: "bool \<Rightarrow> string" where
  \<open>roverButtonLabel busy =
     (if busy
      then ''<span class="spinner-border spinner-border-sm" role="status" aria-hidden="true"></span> Loading...''
      else ''View Latest Images'')\<close>

definition roverCardMarkup ::
  "string \<Rightarrow> string \<Rightarrow> string \<Rightarrow> string \<Rightarrow> string \<Rightarrow> string \<Rightarrow> string \<Rightarrow> string" where
  \<open>roverCardMarkup name launch landing status stateJson roverJson label = concat
     [nl,
      ''    <div class="col mb-4">'', nl,
      ''      <div class="card border-primary shadow-sm">'', nl,
      ''        <div class="card-body">'', nl,
      ''          <h5 class="card-title">'', name, ''</h5>'', nl,
      ''          <p class="card-text">'', nl,
      ''            <strong>Launch Date:</strong> '', launch, ''<br />'', nl,
      ''            <strong>Landing Date:</strong> '', landing, ''<br />'', nl,
      ''            <strong>Status:</strong> '', status, nl,
      ''          </p>'', nl,
      ''          <button class="btn btn-primary" onclick="showRoverDetails('', stateJson, '', '', roverJson, '')">'', nl,
      ''            '', label, nl,
      ''          </button>'', nl,
      ''        </div>'', nl,
      ''      </div>'', nl,
      ''    </div>'', nl,
      ''  '']\<close>

definition createRoverCard :: "jsobj \<Rightarrow> jsval \<Rightarrow> error + string" where
  "createRoverCard state rover =
     bindE (get_method rover ''launch_date'') (\<lambda>launch.
     bindE (get_method rover ''landing_date'') (\<lambda>landing.
     bindE (get_method rover ''status'') (\<lambda>status.
     let selectedRover = map_get state ''selectedRover'';
         isLoading = (case selectedRover of JMap m \<Rightarrow> map_get m ''loading'' | _ \<Rightarrow> JBool False);
         roverName = (case selectedRover of JMap m \<Rightarrow> map_get m ''name'' | _ \<Rightarrow> JNull)
     in
     bindE (get_method rover ''name'') (\<lambda>name.
     bindE (convertToJSON (JMap state)) (\<lambda>stateJson.
     bindE (convertToJSON rover) (\<lambda>roverJson.
     Inr (roverCardMarkup (js_to_string name) (js_to_string launch) (js_to_string landing)
            (js_to_string status) stateJson roverJson
            (roverButtonLabel (truthy isLoading \<and> strict_eq roverName name)))))))))"

subsection \<open>The page\<close>

text \<open>\<^verbatim>\<open>coll.map(f).join("")\<close>, with \<open>f\<close> answering strings: a list maps its elements, a
  map its values, and a primitive has no \<^verbatim>\<open>map\<close>.\<close>

fun map_join :: "(jsval \<Rightarrow> error + string) \<Rightarrow> jsval \<Rightarrow> error + string" where
  "map_join f (JList xs) = bindE (mapE f xs) (\<lambda>ys. Inr (concat ys))"
| "map_join f (JMap kvs) = bindE (mapE f (map snd kvs)) (\<lambda>ys. Inr (concat ys))"
| "map_join f v = Inl TypeError"

definition roverCardsHtml :: "jsobj \<Rightarrow> error + string" where
  "roverCardsHtml state =
     (let rovers = map_get state ''rovers''
      in if truthy rovers then map_join (createRoverCard state) rovers
         else Inr showLoadingSpinner)"

text \<open>The gallery is a string, or \<^verbatim>\<open>undefined\<close> when the optional chain on
  \<^verbatim>\<open>gallery.get("photos")\<close> stops.\<close>

definition galleryHtml :: "jsobj \<Rightarrow> error + jsval" where
  "galleryHtml state =
     (let gallery = map_get state ''selectedRoverGallery''
      in if truthy gallery
         then bindE (get_method gallery ''photos'') (\<lambda>photos.
                if nullish photos then Inr JUndefined
                else bindE (map_join createPhotoCard photos) (\<lambda>html. Inr (JStr html)))
         else Inr (JStr []))"

definition appMarkup ::
  "string \<Rightarrow> string \<Rightarrow> string \<Rightarrow> string \<Rightarrow> string \<Rightarrow> string \<Rightarrow> string" where
  \<open>appMarkup stateJson themeLabel themeClass greeting roverCards gallery = concat
     [nl,
      ''    <header class="bg-dark text-light py-4 shadow-sm">'', nl,
      ''      <div class="container d-flex justify-content-between align-items-center">'', nl,
      ''        <h1 class="text-center">Mars Rover Dashboard</h1>'', nl,
      ''        <button class="btn btn-outline-light" onclick="toggleTheme('', stateJson, '')">'', nl,
      ''          '', themeLabel, nl,
      ''        </button>'', nl,
      ''      </div>'', nl,
      ''    </header>'', nl,
      ''    <main class="container py-5 '', themeClass, ''">'', nl,
      ''      <div class="alert alert-primary">'', nl,
      ''        '', greeting, nl,
      ''        <p class="lead">Explore Mars rover images and information from the NASA API.</p>'', nl,
      ''      </div>'', nl,
      ''      <div class="row row-cols-1 row-cols-md-4 g-2 justify-content-center">'', nl,
      ''        '', roverCards, nl,
      ''      </div>'', nl,
      ''      <div class="row row-cols-1 row-cols-md-3 g-4 mt-4">'', nl,
      ''        '', gallery, nl,
      ''      </div>'', nl,
      ''      <button id="scrollToTopBtn" title="Go to top" onclick="scrollToTop()"><i class="fa-solid fa-arrow-up"></i></button>'', nl,
      ''    </main>'', nl,
      ''    <footer class="py-3 text-center '', themeClass, ''">'', nl,
      ''      <div class="container">'', nl,
      ''        <p class="mb-0">'', [CHR 0xC3, CHR 0x82, CHR 0xC2, CHR 0xA9], '' 2024 Mars Rover Dashboard</p>'', nl,
      ''      </div>'', nl,
      ''    </footer>'', nl,
      ''  '']\<close>

definition generateAppContent :: "jsobj \<Rightarrow> error + string" where
  "generateAppContent state =
     (let user = map_get state ''user'';
          darkMode = map_get state ''isDarkMode''
      in
      bindE (roverCardsHtml state) (\<lambda>roverCards.
      bindE (galleryHtml state) (\<lambda>gallery.
      let themeClass = (if truthy darkMode then ''dark-mode'' else ''light-mode'') in
      bindE (convertToJSON (JMap state)) (\<lambda>stateJson.
      bindE (get_method user ''name'') (\<lambda>name.
      Inr (appMarkup stateJson (if truthy darkMode then ''Light Mode'' else ''Dark Mode'')
             themeClass (createGreeting name) roverCards (js_to_string gallery)))))))"

section \<open>The Update Coordinator\<close>

text \<open>
  The client has no variable for the current state: every action receives the state it
  works on, and a photo request keeps the state it was issued from in its callback. The
  world of the page is the markup of the root element, the state that markup was rendered
  from (the current state of the page), and the photo requests that have not yet resolved,
  each with its two arguments and the state its callback holds.
\<close>

record fetch =
  roverName :: jsval
  maxDate :: jsval
  callbackState :: jsobj

record world =
  innerHTML :: string
  current :: jsobj
  inflight :: "fetch list"

definition renderUI :: "world \<Rightarrow> jsobj \<Rightarrow> error + world" where
  "renderUI w state =
     bindE (generateAppContent state) (\<lambda>html. Inr (w\<lparr>innerHTML := html, current := state\<rparr>))"

text \<open>\<^verbatim>\<open>updateApplicationState\<close> merges, renders, and then runs the callback on the
  merged state. When rendering throws, the root element keeps its markup and the callback
  is not run.\<close>

definition updateApplicationState ::
  "world \<Rightarrow> jsobj \<Rightarrow> jsobj \<Rightarrow> (jsobj \<Rightarrow> world \<Rightarrow> error + world) option \<Rightarrow> error + world" where
  "updateApplicationState w state newState callback =
     (let updatedState = mergeDeep state newState
      in bindE (renderUI w updatedState) (\<lambda>w'.
           case callback of None \<Rightarrow> Inr w' | Some cb \<Rightarrow> cb updatedState w'))"

text \<open>\<^verbatim>\<open>fetchRoverData\<close> issues one photo request for the selected rover of the state
  it is given; \<^verbatim>\<open>fetchRoverPhotos\<close> only sends it.\<close>

definition fetchRoverPhotos :: "jsval \<Rightarrow> jsval \<Rightarrow> jsobj \<Rightarrow> world \<Rightarrow> world" where
  "fetchRoverPhotos name max_date state w =
     w\<lparr>inflight := inflight w @ [\<lparr>roverName = name, maxDate = max_date, callbackState = state\<rparr>]\<rparr>"

definition fetchRoverData :: "jsobj \<Rightarrow> world \<Rightarrow> error + world" where
  "fetchRoverData state w =
     (let selectedRover = map_get state ''selectedRover''
      in bindE (get_method selectedRover ''name'') (\<lambda>name.
         bindE (get_method selectedRover ''max_date'') (\<lambda>max_date.
         Inr (fetchRoverPhotos name max_date state w))))"

text \<open>The callback of a photo request, run when the request resolves with \<open>data\<close>.\<close>

definition photosLoaded :: "world \<Rightarrow> jsobj \<Rightarrow> jsval \<Rightarrow> error + world" where
  "photosLoaded w state data =
     updateApplicationState w state
       [(''selectedRoverGallery'', data),
        (''selectedRover'', JMap [(''loading'', JBool False)])]
       None"

text \<open>The \<open>i\<close>-th request in flight resolves: it leaves the list and its callback runs.\<close>

definition resolveFetch :: "world \<Rightarrow> nat \<Rightarrow> jsval \<Rightarrow> error + world" where
  "resolveFetch w i data =
     (if i < length (inflight w)
      then photosLoaded (w\<lparr>inflight := take i (inflight w) @ drop (Suc i) (inflight w)\<rparr>)
             (callbackState (inflight w ! i)) data
      else Inr w)"

definition showRoverDetails :: "world \<Rightarrow> jsobj \<Rightarrow> jsval \<Rightarrow> error + world" where
  "showRoverDetails w state rover =
     bindE (set_method rover ''loading'' (JBool True)) (\<lambda>selected.
     updateApplicationState w state
       [(''selectedRoverGallery'', JBool False), (''selectedRover'', selected)]
       (Some fetchRoverData))"

definition initialState :: jsobj where
  "initialState =
     [(''user'', JMap [(''name'', JStr ''Student'')]),
      (''selectedRover'', JBool False),
      (''selectedRoverGallery'', JBool False),
      (''isDarkMode'', JBool False)]"

section \<open>Notions of the specification\<close>

subsection \<open>The reference merge\<close>

text \<open>
  The State Store of the specification: for each key present in the patch, recursively
  merge into the current state if both sides are mappings, otherwise overwrite; keys absent
  from the patch are preserved unchanged. Sequences are not mappings, so the patch
  overwrites them.
\<close>

fun specMergeValue :: "jsval \<Rightarrow> jsval \<Rightarrow> jsval"
  and specMergeKey :: "string \<Rightarrow> jsval \<Rightarrow> jsobj \<Rightarrow> jsobj"
  and specMerge :: "jsobj \<Rightarrow> jsobj \<Rightarrow> jsobj" where
  "specMergeValue (JMap c) (JMap p) = JMap (specMerge c p)"
| "specMergeValue old new = new"
| "specMergeKey k v [] = [(k, v)]"
| "specMergeKey k v ((k', old) # c) =
     (if k = k' then (k', specMergeValue old v) # c else (k', old) # specMergeKey k v c)"
| "specMerge c [] = c"
| "specMerge c ((k, v) # p) = specMerge (specMergeKey k v c) p"

subsection \<open>Well-formed states\<close>

text \<open>
  The shape the data model gives a state, as far as the renderer reads it: \<open>user\<close> is a
  mapping; \<open>rovers\<close> is absent or a sequence of mappings; \<open>selectedRoverGallery\<close> is
  absent, \<open>false\<close>, or a mapping whose \<open>photos\<close> are absent or a sequence of photos; a
  photo is a mapping whose \<open>camera\<close> and \<open>rover\<close> are absent or mappings. The keys of
  a mapping are distinct. Nothing is asked of \<open>selectedRover\<close>, of \<open>isDarkMode\<close> or of
  the types of the other fields, so every state of the data model is well formed.
\<close>

fun isCollection :: "jsval \<Rightarrow> bool" where
  "isCollection (JMap kvs) = True"
| "isCollection (JList xs) = True"
| "isCollection v = False"

definition absent_or_map :: "jsval \<Rightarrow> bool" where
  "absent_or_map v = (v = JUndefined \<or> isMap v)"

fun wf_photo :: "jsval \<Rightarrow> bool" where
  "wf_photo (JMap kvs) =
     (absent_or_map (map_get kvs ''camera'') \<and> absent_or_map (map_get kvs ''rover''))"
| "wf_photo v = False"

fun wf_photos :: "jsval \<Rightarrow> bool" where
  "wf_photos JUndefined = True"
| "wf_photos (JList ps) = list_all wf_photo ps"
| "wf_photos v = False"

fun wf_gallery :: "jsval \<Rightarrow> bool" where
  "wf_gallery JUndefined = True"
| "wf_gallery (JBool b) = (\<not> b)"
| "wf_gallery (JMap kvs) = wf_photos (map_get kvs ''photos'')"
| "wf_gallery v = False"

fun wf_rovers :: "jsval \<Rightarrow> bool" where
  "wf_rovers JUndefined = True"
| "wf_rovers (JList rs) = list_all isMap rs"
| "wf_rovers v = False"

definition wf_state :: "jsobj \<Rightarrow> bool" where
  "wf_state state =
     (isMap (map_get state ''user'')
      \<and> wf_rovers (map_get state ''rovers'')
      \<and> wf_gallery (map_get state ''selectedRoverGallery''))"

subsection \<open>The selection race\<close>

text \<open>
  What the page shows as selected, and the scenario of two selections: rover \<open>a\<close> is
  selected on state \<open>sa\<close>, rover \<open>b\<close> is selected on state \<open>sb\<close> before the photo
  request for \<open>a\<close> has resolved, and then the request for \<open>a\<close> resolves with \<open>data\<close>.
  The request for \<open>a\<close> is the one issued first, behind those already in flight.
\<close>

definition currentSelectedRover :: "world \<Rightarrow> jsval" where
  "currentSelectedRover w = map_get (current w) ''selectedRover''"

definition currentGallery :: "world \<Rightarrow> jsval" where
  "currentGallery w = map_get (current w) ''selectedRoverGallery''"

definition currentSelectedName :: "world \<Rightarrow> jsval" where
  "currentSelectedName w =
     (case currentSelectedRover w of JMap m \<Rightarrow> map_get m ''name'' | _ \<Rightarrow> JUndefined)"

definition selectionRace ::
  "world \<Rightarrow> jsobj \<Rightarrow> jsval \<Rightarrow> jsobj \<Rightarrow> jsval \<Rightarrow> jsval \<Rightarrow> error + world" where
  "selectionRace w sa a sb b data =
     bindE (showRoverDetails w sa a) (\<lambda>w1.
     bindE (showRoverDetails w1 sb b) (\<lambda>w2.
     resolveFetch w2 (length (inflight w)) data))"

definition emptyPage :: world where
  "emptyPage = \<lparr>innerHTML = [], current = initialState, inflight = []\<rparr>"

text \<open>The two patches of the rover selection: the one \<open>showRoverDetails\<close> merges when
  \<open>rover\<close> is selected, and the one the callback of a photo request merges.\<close>

definition selectPatch :: "jsobj \<Rightarrow> jsobj" where
  "selectPatch rover =
     [(''selectedRoverGallery'', JBool False),
      (''selectedRover'', JMap (map_set rover ''loading'' (JBool True)))]"

definition loadedPatch :: "jsval \<Rightarrow> jsobj" where
  "loadedPatch data =
     [(''selectedRoverGallery'', data),
      (''selectedRover'', JMap [(''loading'', JBool False)])]"

subsection \<open>Sample data\<close>

text \<open>Two rovers as the upstream API lists them, the state once the rover list has
  arrived, and the state once the photos of the first rover have arrived.\<close>

definition curiosity :: jsobj where
  "curiosity =
     [(''name'', JStr ''Curiosity''),
      (''landing_date'', JStr ''2012-08-06''),
      (''launch_date'', JStr ''2011-11-26''),
      (''status'', JStr ''active''),
      (''max_date'', JStr ''2024-02-19''),
      (''cameras'', JList [JMap [(''name'', JStr ''FHAZ'')], JMap [(''name'', JStr ''MAST'')]])]"

definition spirit :: jsobj where
  "spirit =
     [(''name'', JStr ''Spirit''),
      (''landing_date'', JStr ''2004-01-04''),
      (''launch_date'', JStr ''2003-06-10''),
      (''status'', JStr ''complete''),
      (''max_date'', JStr ''2010-03-21''),
      (''cameras'', JList [JMap [(''name'', JStr ''PANCAM'')]])]"

definition roversLoaded :: jsobj where
  "roversLoaded =
     [(''user'', JMap [(''name'', JStr ''Student'')]),
      (''selectedRover'', JBool False),
      (''selectedRoverGallery'', JBool False),
      (''isDarkMode'', JBool False),
      (''rovers'', JList [JMap curiosity, JMap spirit])]"

definition curiosityLoaded :: jsobj where
  "curiosityLoaded =
     [(''user'', JMap [(''name'', JStr ''Student'')]),
      (''selectedRover'', JMap (map_set curiosity ''loading'' (JBool False))),
      (''selectedRoverGallery'', JMap [(''photos'', JList [])]),
      (''isDarkMode'', JBool False),
      (''rovers'', JList [JMap curiosity, JMap spirit])]"

text \<open>A photo with no field but its image.\<close>

definition barePhoto :: jsval where
  "barePhoto = JMap [(''img_src'', JStr ''http://mars.example/1.jpg'')]"

text \<open>A state whose \<open>user\<close> is a sequence, and a state with no \<open>user\<close>.\<close>

definition listUserState :: jsobj where
  "listUserState = [(''user'', JList [])]"

definition noUserState :: jsobj where
  "noUserState = [(''isDarkMode'', JBool False)]"

text \<open>The state after a photo request was answered with an error object, which has no
  \<open>photos\<close>.\<close>

definition galleryWithoutPhotos :: jsobj where
  "galleryWithoutPhotos =
     [(''user'', JMap [(''name'', JStr ''Student'')]),
      (''selectedRover'', JMap [(''name'', JStr ''Curiosity''), (''loading'', JBool False)]),
      (''selectedRoverGallery'',
         JMap [(''error'', JMap [(''code'', JStr ''OVER_RATE_LIMIT'')])]),
      (''isDarkMode'', JBool False)]"

text \<open>A photo whose image address is the text \<^verbatim>\<open>a','earth_date':'c\<close>, and the photo with
  image address \<^verbatim>\<open>a\<close> and earth date \<^verbatim>\<open>c\<close>.\<close>

definition quotedPhoto :: jsval where
  "quotedPhoto =
     JMap [(''img_src'',
            JStr (concat [''a'', [CHR 0x27], '','', [CHR 0x27], ''earth_date'', [CHR 0x27],
                          '':'', [CHR 0x27], ''c'']))]"

definition plainPhoto :: jsval where
  "plainPhoto = JMap [(''img_src'', JStr ''a''), (''earth_date'', JStr ''c'')]"

text \<open>The card \<open>createRoverCard\<close> renders for Spirit on the empty state, and a state
  without rovers whose user is named by the text of that card.\<close>

definition spiritCard :: string where
  "spiritCard = roverCardMarkup ''Spirit'' ''2003-06-10'' ''2004-01-04'' ''complete''
                  ''{}'' (projr (convertToJSON (JMap spirit))) (roverButtonLabel False)"

definition injectedState :: jsobj where
  "injectedState = [(''user'', JMap [(''name'', JStr spiritCard)])]"

text \<open>Two answers to a photo request: one with a photo, and one whose \<open>photos\<close> hold a
  string where a photo mapping belongs.\<close>

definition goodResponse :: jsval where
  "goodResponse = JMap [(''photos'', JList [barePhoto])]"

definition unreadableResponse :: jsval where
  "unreadableResponse = JMap [(''photos'', JList [JStr ''x''])]"

section \<open>Basic facts\<close>

lemma bindE_Inr [simp]: "bindE (Inr x) f = f x"
  by (simp add: bindE_def)

lemma bindE_Inl [simp]: "bindE (Inl e) f = Inl e"
  by (simp add: bindE_def)

lemma bindE_eq_Inr: "bindE m f = Inr y \<longleftrightarrow> (\<exists>x. m = Inr x \<and> f x = Inr y)"
  by (cases m) simp_all

lemma error_is_TypeError: "(e :: error) = TypeError"
  by (cases e) simp

subsection \<open>Lookups after a merge\<close>

lemma map_of_mergeKey:
  "map_of (mergeKey k v c) =
     (map_of c)(k \<mapsto> (case map_of c k of None \<Rightarrow> v | Some old \<Rightarrow> deepMerger old v))"
  by (induction c) (auto simp: fun_eq_iff)

lemma map_get_mergeKey_other: "k' \<noteq> k \<Longrightarrow> map_get (mergeKey k v c) k' = map_get c k'"
  by (simp add: map_get_def map_of_mergeKey)

lemma map_get_mergeKey_same:
  "map_get (mergeKey k v c) k = (case map_of c k of None \<Rightarrow> v | Some old \<Rightarrow> deepMerger old v)"
  by (simp add: map_get_def map_of_mergeKey)

lemma map_of_mergeDeep:
  "distinct (map fst p) \<Longrightarrow>
   map_of (mergeDeep c p) k =
     (case map_of p k of
        None \<Rightarrow> map_of c k
      | Some new \<Rightarrow> Some (case map_of c k of None \<Rightarrow> new | Some old \<Rightarrow> deepMerger old new))"
proof (induction p arbitrary: c)
  case Nil
  show ?case by simp
next
  case (Cons e p)
  obtain k' v where e: "e = (k', v)" by (cases e)
  from Cons.prems e have d: "distinct (map fst p)" and nk: "k' \<notin> fst ` set p" by auto
  from nk have np: "map_of p k' = None" by (simp add: map_of_eq_None_iff)
  show ?case
    using Cons.IH [OF d, of "mergeKey k' v c"] np
    by (auto simp: e map_of_mergeKey split: option.splits)
qed

lemma map_of_map_set: "map_of (map_set kvs k v) = (map_of kvs)(k \<mapsto> v)"
  by (induction kvs) (auto simp: fun_eq_iff)

lemma map_get_map_set_other: "k' \<noteq> k \<Longrightarrow> map_get (map_set kvs k v) k' = map_get kvs k'"
  by (simp add: map_get_def map_of_map_set)

lemma map_get_map_set_same: "map_get (map_set kvs k v) k = v"
  by (simp add: map_get_def map_of_map_set)

lemma distinct_map_set: "distinct (map fst kvs) \<Longrightarrow> distinct (map fst (map_set kvs k v))"
proof (induction kvs)
  case Nil
  show ?case by simp
next
  case (Cons e kvs)
  have "fst ` set (map_set kvs k v) = insert k (fst ` set kvs)"
    by (simp add: dom_map_of_conv_image_fst [symmetric] map_of_map_set)
  with Cons show ?case by (cases e) auto
qed

section \<open>Properties of the State Store\<close>

text \<open>
  C9. For every state whose \<open>selectedRover\<close> is a mapping, applying the Loaded patch
  \<open>{selectedRoverGallery: gallery, selectedRover: {loading: false}}\<close> through the deep
  merge leaves every field of \<open>selectedRover\<close> other than \<open>loading\<close> unchanged, in
  particular \<open>name\<close>, and sets \<open>loading\<close> to \<open>false\<close>.
\<close>

theorem loaded_patch_frame:
  assumes "map_get state ''selectedRover'' = JMap rover"
  shows "\<exists>rover'. map_get (mergeDeep state
              [(''selectedRoverGallery'', gallery),
               (''selectedRover'', JMap [(''loading'', JBool False)])]) ''selectedRover''
            = JMap rover'
          \<and> map_get rover' ''loading'' = JBool False
          \<and> (\<forall>k. k \<noteq> ''loading'' \<longrightarrow> map_get rover' k = map_get rover k)"
proof -
  from assms have m: "map_of state ''selectedRover'' = Some (JMap rover)"
    by (auto simp: map_get_def split: option.splits)
  have "map_get (mergeDeep state
              [(''selectedRoverGallery'', gallery),
               (''selectedRover'', JMap [(''loading'', JBool False)])]) ''selectedRover''
        = JMap (mergeKey ''loading'' (JBool False) rover)"
    by (simp add: map_get_mergeKey_same map_of_mergeKey m)
  moreover have "map_get (mergeKey ''loading'' (JBool False) rover) ''loading'' = JBool False"
    by (cases "map_of rover ''loading''"; cases "the (map_of rover ''loading'')")
       (simp_all add: map_get_mergeKey_same)
  moreover have "\<forall>k. k \<noteq> ''loading'' \<longrightarrow>
      map_get (mergeKey ''loading'' (JBool False) rover) k = map_get rover k"
    by (simp add: map_get_mergeKey_other)
  ultimately show ?thesis by blast
qed

theorem loaded_patch_frame_witness:
  "map_get [(''selectedRover'',
       JMap [(''name'', JStr ''Curiosity''), (''max_date'', JStr ''2024-02-19''),
             (''loading'', JBool True)])] ''selectedRover''
     = JMap [(''name'', JStr ''Curiosity''), (''max_date'', JStr ''2024-02-19''),
             (''loading'', JBool True)]
   \<and> (\<exists>rover'. map_get (mergeDeep
          [(''selectedRover'',
             JMap [(''name'', JStr ''Curiosity''), (''max_date'', JStr ''2024-02-19''),
                   (''loading'', JBool True)])]
          [(''selectedRoverGallery'', JMap [(''photos'', JList [])]),
           (''selectedRover'', JMap [(''loading'', JBool False)])]) ''selectedRover''
         = JMap rover'
       \<and> map_get rover' ''loading'' = JBool False
       \<and> map_get rover' ''name'' = JStr ''Curiosity'')"
proof -
  let ?r = "[(''name'', JStr ''Curiosity''), (''max_date'', JStr ''2024-02-19''),
             (''loading'', JBool True)]"
  have h: "map_get [(''selectedRover'', JMap ?r)] ''selectedRover'' = JMap ?r"
    by (simp add: map_get_def)
  from loaded_patch_frame [OF h, of "JMap [(''photos'', JList [])]"]
  obtain rover' where
    r: "map_get (mergeDeep [(''selectedRover'', JMap ?r)]
          [(''selectedRoverGallery'', JMap [(''photos'', JList [])]),
           (''selectedRover'', JMap [(''loading'', JBool False)])]) ''selectedRover''
         = JMap rover'"
    and l: "map_get rover' ''loading'' = JBool False"
    and f: "\<forall>k. k \<noteq> ''loading'' \<longrightarrow> map_get rover' k = map_get ?r k"
    by blast
  from f have "map_get rover' ''name'' = map_get ?r ''name''" by simp
  then have "map_get rover' ''name'' = JStr ''Curiosity''" by (simp add: map_get_def)
  with h r l show ?thesis by blast
qed

lemma deepMerger_cases:
  "deepMerger old new =
     (case (old, new) of
        (JMap c, JMap p) \<Rightarrow> JMap (mergeDeep c p)
      | (JList xs, JList ys) \<Rightarrow> JList (xs @ ys)
      | _ \<Rightarrow> new)"
  by (cases old; cases new) simp_all

text \<open>
  C2, as amended. The claim asks that the merge of the Update Coordinator equal the
  reference merge, which overwrites whenever the two sides are not both mappings. The
  client's merge is Immutable's \<^verbatim>\<open>mergeDeep\<close>, which also merges two sequences, by
  concatenation. For every state, every patch with distinct keys and every key: a key
  absent from the patch maps to exactly what it maps to in the state; a key present in
  the patch and absent from the state maps to the patch value; for a key present in both,
  two mappings are merged recursively, two sequences are concatenated, and in every other
  case the patch value overwrites.
\<close>

theorem mergeDeep_lookup:
  assumes "distinct (map fst patch)"
  shows "map_of (mergeDeep state patch) k =
     (case map_of patch k of
        None \<Rightarrow> map_of state k
      | Some new \<Rightarrow>
          Some (case map_of state k of
                  None \<Rightarrow> new
                | Some old \<Rightarrow>
                    (case (old, new) of
                       (JMap c, JMap p) \<Rightarrow> JMap (mergeDeep c p)
                     | (JList xs, JList ys) \<Rightarrow> JList (xs @ ys)
                     | _ \<Rightarrow> new)))"
  using map_of_mergeDeep [OF assms, of state k]
  by (simp add: deepMerger_cases split: option.splits)

theorem mergeDeep_lookup_witness:
  "distinct (map fst [(''rovers'', JList [JStr ''Spirit''])])
   \<and> map_of (mergeDeep [(''rovers'', JList [JStr ''Curiosity'']), (''isDarkMode'', JBool True)]
               [(''rovers'', JList [JStr ''Spirit''])]) ''rovers''
       = Some (JList [JStr ''Curiosity'', JStr ''Spirit''])"
proof -
  have d: "distinct (map fst [(''rovers'', JList [JStr ''Spirit''])])" by simp
  from mergeDeep_lookup [OF d,
      of "[(''rovers'', JList [JStr ''Curiosity'']), (''isDarkMode'', JBool True)]" "''rovers''"]
  show ?thesis by simp
qed

text \<open>
  C2 as stated fails: where the state and the patch both hold a sequence under a key, the
  patch does not overwrite. Merging the empty rover list into a state that lists one rover
  leaves that rover in place, while the reference merge empties the list.
\<close>

theorem mergeDeep_not_specMerge:
  "mergeDeep [(''rovers'', JList [JStr ''Curiosity''])] [(''rovers'', JList [])]
     \<noteq> specMerge [(''rovers'', JList [JStr ''Curiosity''])] [(''rovers'', JList [])]"
  by simp

section \<open>Properties of the Render Engine\<close>

subsection \<open>Rendering succeeds on well-formed states\<close>

lemma sublist_concat: "x \<in> set xs \<Longrightarrow> sublist x (concat xs)"
proof -
  assume "x \<in> set xs"
  then obtain ys zs where "xs = ys @ x # zs" by (auto dest: split_list)
  then have "concat xs = concat ys @ x @ concat zs" by simp
  then show ?thesis by (metis sublist_appendI)
qed

lemma convertToJSON_ok: "v \<noteq> JUndefined \<Longrightarrow> \<exists>j. convertToJSON v = Inr j"
  by (simp add: convertToJSON_def json_stringify_def)

lemma mapE_ok: "(\<And>x. x \<in> set xs \<Longrightarrow> \<exists>y. f x = Inr y) \<Longrightarrow> \<exists>ys. mapE f xs = Inr ys"
proof (induction xs)
  case Nil
  show ?case by simp
next
  case (Cons x xs)
  from Cons.prems obtain y where y: "f x = Inr y" by auto
  from Cons obtain ys where "mapE f xs = Inr ys" by auto
  with y show ?case by simp
qed

lemma createRoverCard_ok: "isMap rover \<Longrightarrow> \<exists>m. createRoverCard state rover = Inr m"
  by (cases rover) (simp_all add: createRoverCard_def Let_def convertToJSON_def json_stringify_def)

lemma opt_get_absent_or_map: "absent_or_map v \<Longrightarrow> \<exists>x. opt_get_method v k = Inr x"
  by (cases v) (simp_all add: absent_or_map_def opt_get_method_def)

lemma createPhotoCard_ok:
  assumes "wf_photo photo"
  shows "\<exists>m. createPhotoCard photo = Inr m"
proof -
  from assms obtain kvs where p: "photo = JMap kvs"
    and c: "absent_or_map (map_get kvs ''camera'')"
    and r: "absent_or_map (map_get kvs ''rover'')"
    by (cases photo) simp_all
  from opt_get_absent_or_map [OF c] obtain cn
    where cn: "opt_get_method (map_get kvs ''camera'') ''full_name'' = Inr cn" by blast
  from opt_get_absent_or_map [OF r] obtain rn
    where rn: "opt_get_method (map_get kvs ''rover'') ''name'' = Inr rn" by blast
  show ?thesis
    by (simp add: createPhotoCard_def photoCamera_def photoDate_def photoRover_def
        cameraFullName_def roverNameOf_def p cn rn)
qed

lemma roverCardsHtml_ok:
  assumes "wf_rovers (map_get state ''rovers'')"
  shows "\<exists>h. roverCardsHtml state = Inr h"
proof (cases "map_get state ''rovers''")
  case (JList rs)
  with assms have "\<And>r. r \<in> set rs \<Longrightarrow> \<exists>m. createRoverCard state r = Inr m"
    by (auto simp: list_all_iff intro: createRoverCard_ok)
  from mapE_ok [of rs "createRoverCard state", OF this]
  obtain ys where "mapE (createRoverCard state) rs = Inr ys" by blast
  with JList show ?thesis by (simp add: roverCardsHtml_def)
qed (use assms in \<open>simp_all add: roverCardsHtml_def\<close>)

lemma galleryHtml_ok:
  assumes "wf_gallery (map_get state ''selectedRoverGallery'')"
  shows "\<exists>h. galleryHtml state = Inr h"
proof (cases "map_get state ''selectedRoverGallery''")
  case (JMap kvs)
  with assms have ph: "wf_photos (map_get kvs ''photos'')" by simp
  show ?thesis
  proof (cases "map_get kvs ''photos''")
    case (JList ps)
    with ph have "\<And>p. p \<in> set ps \<Longrightarrow> \<exists>m. createPhotoCard p = Inr m"
      by (auto simp: list_all_iff intro: createPhotoCard_ok)
    from mapE_ok [of ps createPhotoCard, OF this]
    obtain ys where "mapE createPhotoCard ps = Inr ys" by blast
    with JMap JList show ?thesis by (simp add: galleryHtml_def)
  qed (use ph JMap in \<open>simp_all add: galleryHtml_def\<close>)
qed (use assms in \<open>simp_all add: galleryHtml_def\<close>)

lemma generateAppContent_ok:
  assumes "wf_state state"
  shows "\<exists>markup. generateAppContent state = Inr markup"
proof -
  from assms obtain u where u: "map_get state ''user'' = JMap u"
    by (cases "map_get state ''user''") (simp_all add: wf_state_def)
  from assms roverCardsHtml_ok obtain r where r: "roverCardsHtml state = Inr r"
    unfolding wf_state_def by blast
  from assms galleryHtml_ok obtain g where g: "galleryHtml state = Inr g"
    unfolding wf_state_def by blast
  from convertToJSON_ok [of "JMap state"] obtain j where j: "convertToJSON (JMap state) = Inr j"
    by auto
  show ?thesis by (simp add: generateAppContent_def Let_def u r g j)
qed

lemma wf_initialState: "wf_state initialState"
  by (simp add: wf_state_def initialState_def map_get_def)

text \<open>
  C3. The render function is total and pure on well-formed states: for every well-formed
  state, also the initial one in which rovers and gallery are absent,
  \<open>generateAppContent\<close> evaluates without throwing to a markup string, and evaluations
  on equal states yield the identical string.
\<close>

theorem render_total:
  assumes "wf_state state"
  shows "(\<exists>markup. generateAppContent state = Inr markup)
         \<and> (\<forall>state'. state' = state \<longrightarrow> generateAppContent state' = generateAppContent state)"
  using generateAppContent_ok [OF assms] by simp

theorem render_total_witness:
  "wf_state initialState \<and> (\<exists>markup. generateAppContent initialState = Inr markup)"
  using render_total [OF wf_initialState] wf_initialState by blast

subsection \<open>Photo cards\<close>

lemma createPhotoCard_Inr:
  assumes "createPhotoCard photo = Inr m"
  obtains url camera date rover where
    "get_method photo ''img_src'' = Inr url"
    "photoCamera photo = Inr camera"
    "photoDate photo = Inr date"
    "photoRover photo = Inr rover"
    "m = photoCardMarkup (js_to_string url) (js_to_string camera)
           (js_to_string date) (js_to_string rover)"
  using assms unfolding createPhotoCard_def bindE_eq_Inr by auto

lemma sublist_camera: "sublist camera (photoCardMarkup url camera date rover)"
  unfolding photoCardMarkup_def by (rule sublist_concat) simp

lemma sublist_description:
  "sublist (photoDescription camera date rover) (photoCardMarkup url camera date rover)"
  unfolding photoCardMarkup_def by (rule sublist_concat) simp

lemma sublist_rover: "sublist rover (photoCardMarkup url camera date rover)"
  unfolding photoCardMarkup_def by (rule sublist_concat) simp

lemma sublist_date: "sublist date (photoCardMarkup url camera date rover)"
proof -
  have "sublist date (photoDescription camera date rover)"
    unfolding photoDescription_def by (rule sublist_concat) simp
  then show ?thesis
    using sublist_description sublist_order.order_trans by blast
qed

text \<open>
  C7. For every photo that is rendered: when \<open>camera.full_name\<close> is missing the card
  shows the literal text \<open>Unknown Camera\<close>, when \<open>earth_date\<close> is missing it shows
  \<open>Unknown Date\<close>, and when \<open>rover.name\<close> is missing it shows \<open>Unknown Rover\<close>. The
  value displayed for the field is the default itself, so no \<open>undefined\<close> stands in its
  place.
\<close>

theorem photo_defaults:
  assumes "createPhotoCard photo = Inr markup"
  shows "(cameraFullName photo = Inr JUndefined \<longrightarrow>
            photoCamera photo = Inr (JStr ''Unknown Camera'')
            \<and> (\<exists>url date rover. markup = photoCardMarkup url ''Unknown Camera'' date rover)
            \<and> sublist ''Unknown Camera'' markup)
       \<and> (get_method photo ''earth_date'' = Inr JUndefined \<longrightarrow>
            photoDate photo = Inr (JStr ''Unknown Date'')
            \<and> (\<exists>url camera rover. markup = photoCardMarkup url camera ''Unknown Date'' rover)
            \<and> sublist ''Unknown Date'' markup)
       \<and> (roverNameOf photo = Inr JUndefined \<longrightarrow>
            photoRover photo = Inr (JStr ''Unknown Rover'')
            \<and> (\<exists>url camera date. markup = photoCardMarkup url camera date ''Unknown Rover'')
            \<and> sublist ''Unknown Rover'' markup)"
proof -
  from assms obtain url camera date rover where
    c: "photoCamera photo = Inr camera" and d: "photoDate photo = Inr date"
    and r: "photoRover photo = Inr rover"
    and m: "markup = photoCardMarkup (js_to_string url) (js_to_string camera)
           (js_to_string date) (js_to_string rover)"
    by (rule createPhotoCard_Inr)
  have "cameraFullName photo = Inr JUndefined \<Longrightarrow> camera = JStr ''Unknown Camera''"
    using c by (simp add: photoCamera_def js_or_def)
  moreover have "get_method photo ''earth_date'' = Inr JUndefined \<Longrightarrow> date = JStr ''Unknown Date''"
    using d by (simp add: photoDate_def js_or_def)
  moreover have "roverNameOf photo = Inr JUndefined \<Longrightarrow> rover = JStr ''Unknown Rover''"
    using r by (simp add: photoRover_def js_or_def)
  ultimately show ?thesis
    using c d r m sublist_camera sublist_date sublist_rover
    by (metis js_to_string.simps(5))
qed

theorem photo_defaults_witness:
  "createPhotoCard barePhoto
     = Inr (photoCardMarkup ''http://mars.example/1.jpg'' ''Unknown Camera'' ''Unknown Date''
              ''Unknown Rover'')
   \<and> cameraFullName barePhoto = Inr JUndefined
   \<and> get_method barePhoto ''earth_date'' = Inr JUndefined
   \<and> roverNameOf barePhoto = Inr JUndefined
   \<and> sublist ''Unknown Camera''
        (photoCardMarkup ''http://mars.example/1.jpg'' ''Unknown Camera'' ''Unknown Date''
              ''Unknown Rover'')
   \<and> sublist ''Unknown Date''
        (photoCardMarkup ''http://mars.example/1.jpg'' ''Unknown Camera'' ''Unknown Date''
              ''Unknown Rover'')
   \<and> sublist ''Unknown Rover''
        (photoCardMarkup ''http://mars.example/1.jpg'' ''Unknown Camera'' ''Unknown Date''
              ''Unknown Rover'')"
proof -
  have c: "cameraFullName barePhoto = Inr JUndefined"
    by (simp add: barePhoto_def cameraFullName_def opt_get_method_def map_get_def)
  have d: "get_method barePhoto ''earth_date'' = Inr JUndefined"
    by (simp add: barePhoto_def map_get_def)
  have r: "roverNameOf barePhoto = Inr JUndefined"
    by (simp add: barePhoto_def roverNameOf_def opt_get_method_def map_get_def)
  have m: "createPhotoCard barePhoto
     = Inr (photoCardMarkup ''http://mars.example/1.jpg'' ''Unknown Camera'' ''Unknown Date''
              ''Unknown Rover'')"
    by (simp add: createPhotoCard_def photoCamera_def photoDate_def photoRover_def c d r js_or_def)
       (simp add: barePhoto_def map_get_def)
  from photo_defaults [OF m] c d r m show ?thesis by simp
qed

subsection \<open>The page\<close>

lemma generateAppContent_Inr:
  assumes "generateAppContent state = Inr m"
  obtains roverCards gallery stateJson name where
    "roverCardsHtml state = Inr roverCards"
    "galleryHtml state = Inr gallery"
    "convertToJSON (JMap state) = Inr stateJson"
    "get_method (map_get state ''user'') ''name'' = Inr name"
    "m = appMarkup stateJson
           (if truthy (map_get state ''isDarkMode'') then ''Light Mode'' else ''Dark Mode'')
           (if truthy (map_get state ''isDarkMode'') then ''dark-mode'' else ''light-mode'')
           (createGreeting name) roverCards (js_to_string gallery)"
  using assms unfolding generateAppContent_def Let_def bindE_eq_Inr by auto

lemma sublist_roverCards: "sublist r (appMarkup j l c g r gal)"
  unfolding appMarkup_def by (rule sublist_concat) simp

lemma sublist_greeting: "sublist g (appMarkup j l c g r gal)"
  unfolding appMarkup_def by (rule sublist_concat) simp

lemma sublist_gallery: "sublist gal (appMarkup j l c g r gal)"
  unfolding appMarkup_def by (rule sublist_concat) simp

lemma generateAppContent_initialState:
  "generateAppContent initialState
     = Inr (appMarkup (projr (convertToJSON (JMap initialState))) ''Dark Mode'' ''light-mode''
              (createGreeting (JStr ''Student'')) showLoadingSpinner [])"
  by (simp add: generateAppContent_def roverCardsHtml_def galleryHtml_def initialState_def
      map_get_def convertToJSON_def json_stringify_def)

lemma sublist_sep:
  assumes "c \<notin> set m"
  shows "sublist m (xs @ c # ys) \<longleftrightarrow> sublist m xs \<or> sublist m (c # ys)"
proof
  assume "sublist m (xs @ c # ys)"
  then consider "sublist m xs" | "sublist m (c # ys)"
    | m1 m2 where "m = m1 @ m2" "suffix m1 xs" "prefix m2 (c # ys)"
    by (auto simp: sublist_append)
  then show "sublist m xs \<or> sublist m (c # ys)"
  proof cases
    case 3
    show ?thesis
    proof (cases m2)
      case Nil
      with 3 show ?thesis by (auto intro: suffix_imp_sublist)
    next
      case (Cons d m2')
      with 3 have "d = c" by simp
      with Cons 3(1) assms show ?thesis by simp
    qed
  qed auto
next
  assume "sublist m xs \<or> sublist m (c # ys)"
  then show "sublist m (xs @ c # ys)"
    by (auto simp: sublist_append)
qed

lemma marker_of_page:
  assumes "sublist ''border-primary'' (appMarkup j l c g r gal)"
  shows "sublist ''border-primary'' j \<or> sublist ''border-primary'' l
       \<or> sublist ''border-primary'' c \<or> sublist ''border-primary'' g
       \<or> sublist ''border-primary'' r \<or> sublist ''border-primary'' gal"
  using assms unfolding appMarkup_def
  by (simp add: sublist_Cons_right sublist_sep) blast

lemma marker_in_card:
  "sublist ''border-primary'' (roverCardMarkup n la ln st sj rj lb)"
proof -
  have \<open>sublist ''border-primary'' ''      <div class="card border-primary shadow-sm">''\<close>
    by code_simp
  moreover have \<open>sublist ''      <div class="card border-primary shadow-sm">''
     (roverCardMarkup n la ln st sj rj lb)\<close>
    unfolding roverCardMarkup_def by (rule sublist_concat) simp
  ultimately show ?thesis using sublist_order.order_trans by blast
qed

lemma marker_not_in_fixed_text:
  "\<not> sublist ''border-primary'' showLoadingSpinner"
  "\<not> sublist ''border-primary'' ''Light Mode''"
  "\<not> sublist ''border-primary'' ''Dark Mode''"
  "\<not> sublist ''border-primary'' ''dark-mode''"
  "\<not> sublist ''border-primary'' ''light-mode''"
  by code_simp+

lemma spiritCard_nonempty: "spiritCard \<noteq> []"
  by (simp add: spiritCard_def roverCardMarkup_def)

lemma spiritCard_rendered: "createRoverCard [] (JMap spirit) = Inr spiritCard"
  by (simp add: createRoverCard_def spiritCard_def convertToJSON_def json_stringify_def
      roverButtonLabel_def)
     (simp add: spirit_def map_get_def)

lemma generateAppContent_injectedState:
  "generateAppContent injectedState
     = Inr (appMarkup (projr (convertToJSON (JMap injectedState))) ''Dark Mode'' ''light-mode''
              (createGreeting (JStr spiritCard)) showLoadingSpinner [])"
  by (simp add: generateAppContent_def roverCardsHtml_def galleryHtml_def injectedState_def
      map_get_def convertToJSON_def json_stringify_def)

lemma spiritCard_in_page:
  "sublist spiritCard
      (appMarkup (projr (convertToJSON (JMap injectedState))) ''Dark Mode'' ''light-mode''
              (createGreeting (JStr spiritCard)) showLoadingSpinner [])"
proof -
  have ge: \<open>createGreeting (JStr spiritCard)
      = concat [''<h2 class="display-4">Welcome, '', spiritCard, ''!</h2>'']\<close>
    using spiritCard_nonempty by (simp add: createGreeting_def)
  have "sublist spiritCard (createGreeting (JStr spiritCard))"
    unfolding ge by (rule sublist_concat) simp
  then show ?thesis
    using sublist_greeting sublist_order.order_trans by blast
qed

text \<open>
  C8, as amended. For every state in which the \<open>rovers\<close> key is absent and whose render
  succeeds, the rover row of the markup, from its opening tag to its closing tag, holds
  exactly the loading-spinner placeholder, so the markup contains the \<open>spinner-border\<close>
  element of the placeholder and its \<open>Loading...\<close> label. A rover card occurs in the
  markup only if its class text \<open>border-primary\<close> is already in the text the state itself
  supplies, which is the serialised state, the greeting or the gallery.
\<close>

theorem rovers_absent_placeholder:
  assumes "map_get state ''rovers'' = JUndefined"
    and "generateAppContent state = Inr markup"
  shows \<open>(\<exists>pre post. markup =
            pre @ ''      <div class="row row-cols-1 row-cols-md-4 g-2 justify-content-center">''
              @ nl @ ''        '' @ showLoadingSpinner @ nl @ ''      </div>'' @ post)
       \<and> sublist ''<div class="spinner-border text-primary" style="width: 3rem; height: 3rem;" role="status">'' markup
       \<and> sublist ''<span class="visually-hidden">Loading...</span>'' markup
       \<and> (\<exists>stateJson name gallery.
             convertToJSON (JMap state) = Inr stateJson
           \<and> get_method (map_get state ''user'') ''name'' = Inr name
           \<and> galleryHtml state = Inr gallery
           \<and> (\<forall>n la ln st sj rj lb.
                 sublist (roverCardMarkup n la ln st sj rj lb) markup \<longrightarrow>
                   sublist ''border-primary'' stateJson
                 \<or> sublist ''border-primary'' (createGreeting name)
                 \<or> sublist ''border-primary'' (js_to_string gallery)))\<close>
proof -
  have r: "roverCardsHtml state = Inr showLoadingSpinner"
    using assms(1) by (simp add: roverCardsHtml_def)
  from assms(2) obtain rc gallery stateJson name where
    rc: "roverCardsHtml state = Inr rc"
    and g: "galleryHtml state = Inr gallery"
    and j: "convertToJSON (JMap state) = Inr stateJson"
    and n: "get_method (map_get state ''user'') ''name'' = Inr name"
    and mk: "markup = appMarkup stateJson
           (if truthy (map_get state ''isDarkMode'') then ''Light Mode'' else ''Dark Mode'')
           (if truthy (map_get state ''isDarkMode'') then ''dark-mode'' else ''light-mode'')
           (createGreeting name) rc (js_to_string gallery)"
    by (rule generateAppContent_Inr)
  from r rc have rcs: "rc = showLoadingSpinner" by simp
  let ?l = "(if truthy (map_get state ''isDarkMode'') then ''Light Mode'' else ''Dark Mode'')"
  let ?c = "(if truthy (map_get state ''isDarkMode'') then ''dark-mode'' else ''light-mode'')"
  have m: "markup = appMarkup stateJson ?l ?c (createGreeting name) showLoadingSpinner
                      (js_to_string gallery)"
    using mk rcs by simp
  have row: \<open>\<exists>pre post. markup =
            pre @ ''      <div class="row row-cols-1 row-cols-md-4 g-2 justify-content-center">''
              @ nl @ ''        '' @ showLoadingSpinner @ nl @ ''      </div>'' @ post\<close>
    unfolding m appMarkup_def
    apply (rule exI [of _ \<open>concat [nl,
      ''    <header class="bg-dark text-light py-4 shadow-sm">'', nl,
      ''      <div class="container d-flex justify-content-between align-items-center">'', nl,
      ''        <h1 class="text-center">Mars Rover Dashboard</h1>'', nl,
      ''        <button class="btn btn-outline-light" onclick="toggleTheme('', stateJson, '')">'', nl,
      ''          '', ?l, nl,
      ''        </button>'', nl,
      ''      </div>'', nl,
      ''    </header>'', nl,
      ''    <main class="container py-5 '', ?c, ''">'', nl,
      ''      <div class="alert alert-primary">'', nl,
      ''        '', createGreeting name, nl,
      ''        <p class="lead">Explore Mars rover images and information from the NASA API.</p>'', nl,
      ''      </div>'', nl]\<close>])
    apply (rule exI [of _ \<open>concat [nl,
      ''      <div class="row row-cols-1 row-cols-md-3 g-4 mt-4">'', nl,
      ''        '', js_to_string gallery, nl,
      ''      </div>'', nl,
      ''      <button id="scrollToTopBtn" title="Go to top" onclick="scrollToTop()"><i class="fa-solid fa-arrow-up"></i></button>'', nl,
      ''    </main>'', nl,
      ''    <footer class="py-3 text-center '', ?c, ''">'', nl,
      ''      <div class="container">'', nl,
      ''        <p class="mb-0">'', [CHR 0xC3, CHR 0x82, CHR 0xC2, CHR 0xA9], '' 2024 Mars Rover Dashboard</p>'', nl,
      ''      </div>'', nl,
      ''    </footer>'', nl,
      ''  '']\<close>])
    apply simp
    done
  have sp: "sublist showLoadingSpinner markup"
    unfolding m by (rule sublist_roverCards)
  have s1: \<open>sublist ''<div class="spinner-border text-primary" style="width: 3rem; height: 3rem;" role="status">'' showLoadingSpinner\<close>
    by code_simp
  have s2: \<open>sublist ''<span class="visually-hidden">Loading...</span>'' showLoadingSpinner\<close>
    by code_simp
  have cards: "sublist ''border-primary'' stateJson
                 \<or> sublist ''border-primary'' (createGreeting name)
                 \<or> sublist ''border-primary'' (js_to_string gallery)"
    if "sublist (roverCardMarkup n la ln st sj rj lb) markup" for n la ln st sj rj lb
  proof -
    from that marker_in_card [of n la ln st sj rj lb]
    have "sublist ''border-primary'' markup"
      using sublist_order.order_trans by blast
    from marker_of_page [OF this [unfolded m]] marker_not_in_fixed_text
    show ?thesis by (auto split: if_splits)
  qed
  from s1 s2 sp have t1: \<open>sublist ''<div class="spinner-border text-primary" style="width: 3rem; height: 3rem;" role="status">'' markup\<close>
    and t2: \<open>sublist ''<span class="visually-hidden">Loading...</span>'' markup\<close>
    using sublist_order.order_trans by blast+
  from row t1 t2 j n g cards show ?thesis by blast
qed

theorem rovers_absent_placeholder_witness:
  \<open>map_get initialState ''rovers'' = JUndefined
   \<and> generateAppContent initialState
       = Inr (appMarkup (projr (convertToJSON (JMap initialState))) ''Dark Mode'' ''light-mode''
              (createGreeting (JStr ''Student'')) showLoadingSpinner [])
   \<and> sublist ''<span class="visually-hidden">Loading...</span>''
        (appMarkup (projr (convertToJSON (JMap initialState))) ''Dark Mode'' ''light-mode''
              (createGreeting (JStr ''Student'')) showLoadingSpinner [])
   \<and> map_get injectedState ''rovers'' = JUndefined
   \<and> generateAppContent injectedState
       = Inr (appMarkup (projr (convertToJSON (JMap injectedState))) ''Dark Mode'' ''light-mode''
              (createGreeting (JStr spiritCard)) showLoadingSpinner [])
   \<and> sublist spiritCard
        (appMarkup (projr (convertToJSON (JMap injectedState))) ''Dark Mode'' ''light-mode''
              (createGreeting (JStr spiritCard)) showLoadingSpinner [])
   \<and> (sublist ''border-primary'' (projr (convertToJSON (JMap injectedState)))
        \<or> sublist ''border-primary'' (createGreeting (JStr spiritCard))
        \<or> sublist ''border-primary'' (js_to_string (JStr [])))\<close>
proof -
  have a: "map_get initialState ''rovers'' = JUndefined"
    by (simp add: initialState_def map_get_def)
  have b: "map_get injectedState ''rovers'' = JUndefined"
    by (simp add: injectedState_def map_get_def)
  from rovers_absent_placeholder [OF a generateAppContent_initialState]
  have 1: \<open>sublist ''<span class="visually-hidden">Loading...</span>''
        (appMarkup (projr (convertToJSON (JMap initialState))) ''Dark Mode'' ''light-mode''
              (createGreeting (JStr ''Student'')) showLoadingSpinner [])\<close>
    by blast
  from rovers_absent_placeholder [OF b generateAppContent_injectedState]
  obtain stateJson name gallery where
    j: "convertToJSON (JMap injectedState) = Inr stateJson"
    and n: "get_method (map_get injectedState ''user'') ''name'' = Inr name"
    and g: "galleryHtml injectedState = Inr gallery"
    and c: "\<forall>n la ln st sj rj lb.
              sublist (roverCardMarkup n la ln st sj rj lb)
                (appMarkup (projr (convertToJSON (JMap injectedState))) ''Dark Mode''
                   ''light-mode'' (createGreeting (JStr spiritCard)) showLoadingSpinner []) \<longrightarrow>
                sublist ''border-primary'' stateJson
              \<or> sublist ''border-primary'' (createGreeting name)
              \<or> sublist ''border-primary'' (js_to_string gallery)"
    by blast
  from j have j': "stateJson = projr (convertToJSON (JMap injectedState))" by simp
  from n have n': "name = JStr spiritCard" by (simp add: injectedState_def map_get_def)
  from g have g': "gallery = JStr []" by (simp add: galleryHtml_def injectedState_def map_get_def)
  from c spiritCard_in_page
  have "sublist ''border-primary'' stateJson
      \<or> sublist ''border-primary'' (createGreeting name)
      \<or> sublist ''border-primary'' (js_to_string gallery)"
    unfolding spiritCard_def by blast
  with a b 1 j' n' g' generateAppContent_initialState generateAppContent_injectedState
    spiritCard_in_page
  show ?thesis by simp
qed

text \<open>
  C8 as stated fails, because the page interpolates the text of the state unescaped: in a
  state without rovers whose user is named by the markup of a rover card, the rendered
  markup contains that rover card.
\<close>

theorem injected_rover_card:
  "map_get injectedState ''rovers'' = JUndefined
   \<and> createRoverCard [] (JMap spirit) = Inr spiritCard
   \<and> map_sum id (sublist spiritCard) (generateAppContent injectedState) = Inr True"
proof -
  have "map_get injectedState ''rovers'' = JUndefined"
    by (simp add: injectedState_def map_get_def)
  with generateAppContent_injectedState spiritCard_in_page spiritCard_rendered
  show ?thesis by simp
qed

lemma render_needs_user:
  assumes "\<not> isCollection (map_get state ''user'')"
  shows "generateAppContent state = Inl TypeError"
proof (cases "generateAppContent state")
  case (Inl e)
  then show ?thesis by (simp add: error_is_TypeError [of e])
next
  case (Inr m)
  then obtain name where "get_method (map_get state ''user'') ''name'' = Inr name"
    by (rule generateAppContent_Inr)
  with assms show ?thesis by (cases "map_get state ''user''") simp_all
qed

text \<open>
  C10, as amended. \<open>generateAppContent\<close> reads \<open>state.user\<close> and then \<open>user.name\<close>
  unconditionally. For every state in which \<open>user\<close> is absent or is not a collection
  (neither a mapping nor a sequence), rendering throws instead of producing markup.
  Whenever rendering produces markup, \<open>user\<close> answered \<open>get("name")\<close> and the markup
  contains the greeting of that name: the literal \<open>Hello!\<close> heading when the name is falsy
  (absent, empty, \<open>null\<close>, \<open>false\<close> or \<open>0\<close>), and \<open>Welcome, {name}!\<close> otherwise. The
  initial state has a \<open>user\<close> mapping and renders \<open>Welcome, Student!\<close>.
\<close>

theorem render_user_precondition:
  shows "(\<not> isCollection (map_get state ''user'') \<longrightarrow> generateAppContent state = Inl TypeError)
       \<and> (\<forall>markup. generateAppContent state = Inr markup \<longrightarrow>
            (\<exists>name. get_method (map_get state ''user'') ''name'' = Inr name
               \<and> sublist (createGreeting name) markup
               \<and> (\<not> truthy name \<longrightarrow> createGreeting name = ''<h2 class=\"display-4\">Hello!</h2>'')
               \<and> (truthy name \<longrightarrow> createGreeting name
                     = ''<h2 class=\"display-4\">Welcome, '' @ js_to_string name @ ''!</h2>'')))"
proof -
  have "\<exists>name. get_method (map_get state ''user'') ''name'' = Inr name
               \<and> sublist (createGreeting name) markup
               \<and> (\<not> truthy name \<longrightarrow> createGreeting name = ''<h2 class=\"display-4\">Hello!</h2>'')
               \<and> (truthy name \<longrightarrow> createGreeting name
                     = ''<h2 class=\"display-4\">Welcome, '' @ js_to_string name @ ''!</h2>'')"
    if "generateAppContent state = Inr markup" for markup
  proof -
    from that obtain j l c r gal name where
      n: "get_method (map_get state ''user'') ''name'' = Inr name"
      and m: "markup = appMarkup j l c (createGreeting name) r gal"
      by (rule generateAppContent_Inr)
    from m have "sublist (createGreeting name) markup" by (simp add: sublist_greeting)
    with n show ?thesis by (auto simp: createGreeting_def)
  qed
  with render_needs_user show ?thesis by blast
qed

theorem render_user_precondition_witness:
  "\<not> isCollection (map_get noUserState ''user'')
   \<and> generateAppContent noUserState = Inl TypeError
   \<and> generateAppContent initialState
       = Inr (appMarkup (projr (convertToJSON (JMap initialState))) ''Dark Mode'' ''light-mode''
              (createGreeting (JStr ''Student'')) showLoadingSpinner [])
   \<and> (\<exists>name. get_method (map_get initialState ''user'') ''name'' = Inr name
         \<and> truthy name
         \<and> createGreeting name = ''<h2 class=\"display-4\">Welcome, Student!</h2>'')"
proof -
  have a: "\<not> isCollection (map_get noUserState ''user'')"
    by (simp add: noUserState_def map_get_def)
  have n: "get_method (map_get initialState ''user'') ''name'' = Inr (JStr ''Student'')"
    by (simp add: initialState_def map_get_def)
  from render_user_precondition [of initialState] generateAppContent_initialState n
  have "truthy (JStr ''Student'') \<longrightarrow> createGreeting (JStr ''Student'')
          = ''<h2 class=\"display-4\">Welcome, '' @ js_to_string (JStr ''Student'') @ ''!</h2>''"
    by auto
  then have "createGreeting (JStr ''Student'') = ''<h2 class=\"display-4\">Welcome, Student!</h2>''"
    by simp
  with render_user_precondition [of noUserState] a n generateAppContent_initialState
  show ?thesis by auto
qed

text \<open>
  C10 as stated fails for a \<open>user\<close> that is not a mapping but a sequence: an Immutable
  list answers \<open>get("name")\<close> with \<open>undefined\<close>, so rendering does not throw and greets
  with \<open>Hello!\<close>.
\<close>

theorem list_user_renders:
  "\<not> isMap (map_get listUserState ''user'')
   \<and> generateAppContent listUserState
       = Inr (appMarkup (projr (convertToJSON (JMap listUserState))) ''Dark Mode'' ''light-mode''
               ''<h2 class=\"display-4\">Hello!</h2>'' showLoadingSpinner [])"
  by (simp add: generateAppContent_def roverCardsHtml_def galleryHtml_def listUserState_def
      map_get_def convertToJSON_def json_stringify_def index_of_key_def is_digit_def
      createGreeting_def)

text \<open>
  C5. The claim asks that the gallery row be empty whenever \<open>selectedRoverGallery\<close> holds
  no photos, also when it is truthy and its \<open>photos\<close> key is absent. On the state left by
  a photo request that was answered with an error object, the optional chain yields
  \<open>undefined\<close> and the template prints it: the gallery row of the page is the text
  \<open>undefined\<close>.
\<close>

theorem gallery_without_photos_renders_undefined:
  "galleryHtml galleryWithoutPhotos = Inr JUndefined
   \<and> generateAppContent galleryWithoutPhotos
       = Inr (appMarkup (projr (convertToJSON (JMap galleryWithoutPhotos))) ''Dark Mode''
               ''light-mode'' (createGreeting (JStr ''Student'')) showLoadingSpinner
               ''undefined'')"
  by (simp add: generateAppContent_def roverCardsHtml_def galleryHtml_def
      galleryWithoutPhotos_def map_get_def convertToJSON_def json_stringify_def)

text \<open>
  C6. The claim asks that a photo serialised by \<open>convertToJSON\<close> parse back to itself.
  Two different photos have the same serialisation, so no parser can return both: the
  replacement of every double quote by a single quote makes the single quotes inside a
  string indistinguishable from the delimiters.
\<close>

theorem convertToJSON_collision:
  "convertToJSON quotedPhoto = convertToJSON plainPhoto \<and> quotedPhoto \<noteq> plainPhoto"
  by (simp add: convertToJSON_def json_stringify_def quotedPhoto_def plainPhoto_def
      json_quote_def json_escape_def)

section \<open>Properties of the Update Coordinator\<close>

lemma merged_selected:
  "map_get (mergeDeep state [(''selectedRoverGallery'', g), (''selectedRover'', JMap r)])
     ''selectedRover''
   = (case map_get state ''selectedRover'' of JMap old \<Rightarrow> JMap (mergeDeep old r) | _ \<Rightarrow> JMap r)"
proof (cases "map_of state ''selectedRover''")
  case None
  then show ?thesis by (simp add: map_get_mergeKey_same map_of_mergeKey map_get_def)
next
  case (Some old)
  then show ?thesis
    by (cases old) (simp_all add: map_get_mergeKey_same map_of_mergeKey map_get_def)
qed

lemma merged_gallery:
  "map_get (mergeDeep state [(''selectedRoverGallery'', g), (''selectedRover'', v)])
     ''selectedRoverGallery''
   = (case map_of state ''selectedRoverGallery'' of None \<Rightarrow> g | Some old \<Rightarrow> deepMerger old g)"
  by (simp add: map_get_mergeKey_same map_get_mergeKey_other)

lemma deepMerger_JBool [simp]: "deepMerger old (JBool b) = JBool b"
  by (cases old) simp_all

lemma deepMerger_JStr [simp]: "deepMerger old (JStr s) = JStr s"
  by (cases old) simp_all

lemma selectPatch_gallery:
  "map_get (mergeDeep state (selectPatch rover)) ''selectedRoverGallery'' = JBool False"
  unfolding selectPatch_def merged_gallery by (simp split: option.splits)

lemma map_get_mergeDeep_JStr:
  assumes "distinct (map fst p)" and "map_get p k = JStr s"
  shows "map_get (mergeDeep c p) k = JStr s"
proof -
  from assms(2) have "map_of p k = Some (JStr s)"
    by (auto simp: map_get_def split: option.splits)
  with map_of_mergeDeep [OF assms(1), of c k] show ?thesis
    by (simp add: map_get_def split: option.splits)
qed

lemma showRoverDetails_Inr:
  assumes "showRoverDetails w state (JMap rover) = Inr w'"
  obtains html sel where
    "generateAppContent (mergeDeep state (selectPatch rover)) = Inr html"
    "map_get (mergeDeep state (selectPatch rover)) ''selectedRover'' = JMap sel"
    "sel = (case map_get state ''selectedRover'' of
              JMap old \<Rightarrow> mergeDeep old (map_set rover ''loading'' (JBool True))
            | _ \<Rightarrow> map_set rover ''loading'' (JBool True))"
    "w' = \<lparr>innerHTML = html, current = mergeDeep state (selectPatch rover),
           inflight = inflight w @
             [\<lparr>roverName = map_get sel ''name'', maxDate = map_get sel ''max_date'',
               callbackState = mergeDeep state (selectPatch rover)\<rparr>]\<rparr>"
proof -
  let ?m = "mergeDeep state (selectPatch rover)"
  let ?r = "map_set rover ''loading'' (JBool True)"
  let ?sel = "(case map_get state ''selectedRover'' of
              JMap old \<Rightarrow> mergeDeep old ?r | _ \<Rightarrow> ?r)"
  have s: "map_get ?m ''selectedRover'' = JMap ?sel"
    unfolding selectPatch_def merged_selected
    by (cases "map_get state ''selectedRover''") simp_all
  from assms obtain html where
    h: "generateAppContent ?m = Inr html"
    and f: "fetchRoverData ?m (w\<lparr>innerHTML := html, current := ?m\<rparr>) = Inr w'"
    by (auto simp: showRoverDetails_def updateApplicationState_def renderUI_def Let_def
        bindE_eq_Inr selectPatch_def)
  from f s have "w' = \<lparr>innerHTML = html, current = ?m,
           inflight = inflight w @
             [\<lparr>roverName = map_get ?sel ''name'', maxDate = map_get ?sel ''max_date'',
               callbackState = ?m\<rparr>]\<rparr>"
    by (cases w) (auto simp: fetchRoverData_def fetchRoverPhotos_def Let_def)
  with h s that show ?thesis by blast
qed

lemma showRoverDetails_ok:
  assumes "wf_state (mergeDeep state (selectPatch rover))"
  shows "\<exists>w'. showRoverDetails w state (JMap rover) = Inr w'"
proof -
  let ?m = "mergeDeep state (selectPatch rover)"
  from generateAppContent_ok [OF assms] obtain html where h: "generateAppContent ?m = Inr html"
    by blast
  have "\<exists>sel. map_get ?m ''selectedRover'' = JMap sel"
    unfolding selectPatch_def merged_selected
    by (cases "map_get state ''selectedRover''") simp_all
  then obtain sel where "map_get ?m ''selectedRover'' = JMap sel" by blast
  with h show ?thesis
    by (simp add: showRoverDetails_def updateApplicationState_def renderUI_def Let_def
        selectPatch_def fetchRoverData_def)
qed

lemma selection_effect:
  assumes "showRoverDetails w state (JMap rover) = Inr w'"
  shows "currentGallery w' = JBool False
       \<and> currentSelectedRover w'
           = (case map_get state ''selectedRover'' of
                JMap old \<Rightarrow> JMap (mergeDeep old (map_set rover ''loading'' (JBool True)))
              | _ \<Rightarrow> JMap (map_set rover ''loading'' (JBool True)))
       \<and> (\<exists>sel. currentSelectedRover w' = JMap sel
             \<and> inflight w' = inflight w @
                  [\<lparr>roverName = map_get sel ''name'', maxDate = map_get sel ''max_date'',
                    callbackState = current w'\<rparr>])
       \<and> (\<not> isMap (map_get state ''selectedRover'') \<longrightarrow>
             inflight w' = inflight w @
                  [\<lparr>roverName = map_get rover ''name'', maxDate = map_get rover ''max_date'',
                    callbackState = current w'\<rparr>])
       \<and> (\<forall>n d. distinct (map fst rover) \<and> map_get rover ''name'' = JStr n
                  \<and> map_get rover ''max_date'' = JStr d \<longrightarrow>
             inflight w' = inflight w @
                  [\<lparr>roverName = JStr n, maxDate = JStr d, callbackState = current w'\<rparr>])"
proof -
  let ?r = "map_set rover ''loading'' (JBool True)"
  from assms obtain html sel where
    s: "map_get (mergeDeep state (selectPatch rover)) ''selectedRover'' = JMap sel"
    and sel: "sel = (case map_get state ''selectedRover'' of
              JMap old \<Rightarrow> mergeDeep old ?r | _ \<Rightarrow> ?r)"
    and w': "w' = \<lparr>innerHTML = html, current = mergeDeep state (selectPatch rover),
           inflight = inflight w @
             [\<lparr>roverName = map_get sel ''name'', maxDate = map_get sel ''max_date'',
               callbackState = mergeDeep state (selectPatch rover)\<rparr>]\<rparr>"
    by (rule showRoverDetails_Inr)
  have g: "currentGallery w' = JBool False"
    by (simp add: w' currentGallery_def selectPatch_gallery)
  have c: "currentSelectedRover w' = JMap sel"
    by (simp add: w' currentSelectedRover_def s)
  have c': "currentSelectedRover w'
           = (case map_get state ''selectedRover'' of
                JMap old \<Rightarrow> JMap (mergeDeep old ?r) | _ \<Rightarrow> JMap ?r)"
    unfolding c sel by (cases "map_get state ''selectedRover''") simp_all
  have i: "inflight w' = inflight w @
                  [\<lparr>roverName = map_get sel ''name'', maxDate = map_get sel ''max_date'',
                    callbackState = current w'\<rparr>]"
    by (simp add: w')
  have rn: "map_get ?r ''name'' = map_get rover ''name''"
    and rd: "map_get ?r ''max_date'' = map_get rover ''max_date''"
    by (simp_all add: map_get_map_set_other)
  have p: "sel = ?r" if "\<not> isMap (map_get state ''selectedRover'')"
    using that unfolding sel by (cases "map_get state ''selectedRover''") simp_all
  have q: "map_get sel ''name'' = JStr n \<and> map_get sel ''max_date'' = JStr d"
    if "distinct (map fst rover)" "map_get rover ''name'' = JStr n"
      "map_get rover ''max_date'' = JStr d" for n d
  proof -
    from that(1) have dr: "distinct (map fst ?r)" by (rule distinct_map_set)
    from that rn rd have "map_get ?r ''name'' = JStr n" "map_get ?r ''max_date'' = JStr d"
      by simp_all
    with dr show ?thesis
      unfolding sel
      by (cases "map_get state ''selectedRover''") (simp_all add: map_get_mergeDeep_JStr)
  qed
  have e: "\<exists>sel. currentSelectedRover w' = JMap sel
             \<and> inflight w' = inflight w @
                  [\<lparr>roverName = map_get sel ''name'', maxDate = map_get sel ''max_date'',
                    callbackState = current w'\<rparr>]"
    using c i by blast
  have i1: "inflight w' = inflight w @
                  [\<lparr>roverName = map_get rover ''name'', maxDate = map_get rover ''max_date'',
                    callbackState = current w'\<rparr>]"
    if "\<not> isMap (map_get state ''selectedRover'')"
    using i rn rd p [OF that] by simp
  have i2: "inflight w' = inflight w @
                  [\<lparr>roverName = JStr n, maxDate = JStr d, callbackState = current w'\<rparr>]"
    if "distinct (map fst rover) \<and> map_get rover ''name'' = JStr n
                  \<and> map_get rover ''max_date'' = JStr d" for n d
    using i q [of n d] that by simp
  show ?thesis
    apply (intro conjI allI impI)
        apply (rule g)
       apply (rule c')
      apply (rule e)
     apply (erule i1)
    apply (erule i2)
    done
qed

lemma late_response_effect:
  assumes "selectionRace w sa (JMap a) sb (JMap b) data = Inr w'"
    and "distinct (map fst a)"
    and "map_get a ''name'' = JStr n"
  shows "currentSelectedName w' = JStr n \<and> currentGallery w' = data"
proof -
  let ?ma = "mergeDeep sa (selectPatch a)"
  let ?mb = "mergeDeep sb (selectPatch b)"
  from assms(1) obtain w1 w2 where
    1: "showRoverDetails w sa (JMap a) = Inr w1"
    and 2: "showRoverDetails w1 sb (JMap b) = Inr w2"
    and 3: "resolveFetch w2 (length (inflight w)) data = Inr w'"
    by (auto simp: selectionRace_def bindE_eq_Inr)
  from 1 obtain h1 sela where
    sa: "map_get ?ma ''selectedRover'' = JMap sela"
    and sela: "sela = (case map_get sa ''selectedRover'' of
              JMap old \<Rightarrow> mergeDeep old (map_set a ''loading'' (JBool True))
            | _ \<Rightarrow> map_set a ''loading'' (JBool True))"
    and w1: "w1 = \<lparr>innerHTML = h1, current = ?ma,
           inflight = inflight w @
             [\<lparr>roverName = map_get sela ''name'', maxDate = map_get sela ''max_date'',
               callbackState = ?ma\<rparr>]\<rparr>"
    by (rule showRoverDetails_Inr)
  from 2 obtain h2 selb where
    w2: "w2 = \<lparr>innerHTML = h2, current = ?mb,
           inflight = inflight w1 @
             [\<lparr>roverName = map_get selb ''name'', maxDate = map_get selb ''max_date'',
               callbackState = ?mb\<rparr>]\<rparr>"
    by (rule showRoverDetails_Inr)
  have len: "length (inflight w) < length (inflight w2)" by (simp add: w2 w1)
  have cb: "callbackState (inflight w2 ! length (inflight w)) = ?ma"
    by (simp add: w2 w1 nth_append)
  from 3 len cb have cur: "current w' = mergeDeep ?ma (loadedPatch data)"
    by (auto simp: resolveFetch_def photosLoaded_def updateApplicationState_def renderUI_def
        Let_def bindE_eq_Inr loadedPatch_def)
  have dr: "distinct (map fst (map_set a ''loading'' (JBool True)))"
    using assms(2) by (rule distinct_map_set)
  have "map_get (map_set a ''loading'' (JBool True)) ''name'' = JStr n"
    using assms(3) by (simp add: map_get_map_set_other)
  with dr have na: "map_get sela ''name'' = JStr n"
    unfolding sela by (cases "map_get sa ''selectedRover''") (simp_all add: map_get_mergeDeep_JStr)
  have "map_get (mergeDeep ?ma (loadedPatch data)) ''selectedRover''
          = JMap (mergeKey ''loading'' (JBool False) sela)"
    unfolding loadedPatch_def merged_selected by (simp add: sa)
  then have "currentSelectedName w' = map_get (mergeKey ''loading'' (JBool False) sela) ''name''"
    by (simp add: currentSelectedName_def currentSelectedRover_def cur)
  with na have name: "currentSelectedName w' = JStr n"
    by (simp add: map_get_mergeKey_other)
  have "map_get ?ma ''selectedRoverGallery'' = JBool False"
    by (rule selectPatch_gallery)
  then have "map_of ?ma ''selectedRoverGallery'' = Some (JBool False)"
    by (auto simp: map_get_def split: option.splits)
  then have "currentGallery w' = data"
    unfolding currentGallery_def cur loadedPatch_def merged_gallery by simp
  with name show ?thesis by simp
qed

lemma selectionRace_ok:
  assumes "wf_state (mergeDeep sa (selectPatch a))"
    and "wf_state (mergeDeep sb (selectPatch b))"
    and "wf_state (mergeDeep (mergeDeep sa (selectPatch a)) (loadedPatch data))"
  shows "\<exists>w'. selectionRace w sa (JMap a) sb (JMap b) data = Inr w'"
proof -
  let ?ma = "mergeDeep sa (selectPatch a)"
  from showRoverDetails_ok [OF assms(1)] obtain w1
    where 1: "showRoverDetails w sa (JMap a) = Inr w1" by blast
  from showRoverDetails_ok [OF assms(2)] obtain w2
    where 2: "showRoverDetails w1 sb (JMap b) = Inr w2" by blast
  from 1 obtain h1 sela where
    w1: "w1 = \<lparr>innerHTML = h1, current = ?ma,
           inflight = inflight w @
             [\<lparr>roverName = map_get sela ''name'', maxDate = map_get sela ''max_date'',
               callbackState = ?ma\<rparr>]\<rparr>"
    by (rule showRoverDetails_Inr)
  from 2 obtain h2 selb where
    w2: "w2 = \<lparr>innerHTML = h2, current = mergeDeep sb (selectPatch b),
           inflight = inflight w1 @
             [\<lparr>roverName = map_get selb ''name'', maxDate = map_get selb ''max_date'',
               callbackState = mergeDeep sb (selectPatch b)\<rparr>]\<rparr>"
    by (rule showRoverDetails_Inr)
  have len: "length (inflight w) < length (inflight w2)" by (simp add: w2 w1)
  have cb: "callbackState (inflight w2 ! length (inflight w)) = ?ma"
    by (simp add: w2 w1 nth_append)
  from generateAppContent_ok [OF assms(3)] obtain html
    where "generateAppContent (mergeDeep ?ma (loadedPatch data)) = Inr html" by blast
  with len cb have "\<exists>w'. resolveFetch w2 (length (inflight w)) data = Inr w'"
    by (simp add: resolveFetch_def photosLoaded_def updateApplicationState_def renderUI_def
        Let_def loadedPatch_def)
  with 1 2 show ?thesis by (simp add: selectionRace_def)
qed

lemma wf_select_curiosity: "wf_state (mergeDeep roversLoaded (selectPatch curiosity))"
  by (simp add: wf_state_def roversLoaded_def selectPatch_def curiosity_def spirit_def
      map_get_def)

lemma wf_select_spirit:
  "wf_state (mergeDeep (mergeDeep roversLoaded (selectPatch curiosity)) (selectPatch spirit))"
  by (simp add: wf_state_def roversLoaded_def selectPatch_def curiosity_def spirit_def
      map_get_def)

lemma wf_loaded_curiosity:
  "wf_state (mergeDeep (mergeDeep roversLoaded (selectPatch curiosity))
               (loadedPatch (JMap [(''photos'', JList [barePhoto])])))"
  by (simp add: wf_state_def roversLoaded_def selectPatch_def loadedPatch_def curiosity_def
      spirit_def map_get_def barePhoto_def absent_or_map_def)

lemma wf_reselect: "wf_state (mergeDeep curiosityLoaded (selectPatch spirit))"
  by (simp add: wf_state_def curiosityLoaded_def selectPatch_def curiosity_def spirit_def
      map_get_def)

lemma distinct_curiosity: "distinct (map fst curiosity)"
  by (simp add: curiosity_def)

lemma curiosity_name: "map_get curiosity ''name'' = JStr ''Curiosity''"
  by (simp add: curiosity_def map_get_def)

lemma curiosity_max_date: "map_get curiosity ''max_date'' = JStr ''2024-02-19''"
  by (simp add: curiosity_def map_get_def)

lemma captured_gallery:
  "map_get (mergeDeep (mergeDeep sa (selectPatch a)) (loadedPatch data)) ''selectedRoverGallery''
     = data"
proof -
  have "map_get (mergeDeep sa (selectPatch a)) ''selectedRoverGallery'' = JBool False"
    by (rule selectPatch_gallery)
  then have "map_of (mergeDeep sa (selectPatch a)) ''selectedRoverGallery'' = Some (JBool False)"
    by (auto simp: map_get_def split: option.splits)
  then show ?thesis
    unfolding loadedPatch_def merged_gallery by simp
qed

lemma captured_selected:
  "\<exists>sel. map_get (mergeDeep sa (selectPatch a)) ''selectedRover'' = JMap sel
     \<and> map_get (mergeDeep (mergeDeep sa (selectPatch a)) (loadedPatch data)) ''selectedRover''
          = JMap (mergeKey ''loading'' (JBool False) sel)
     \<and> (\<forall>n. distinct (map fst a) \<and> map_get a ''name'' = JStr n \<longrightarrow>
            map_get sel ''name'' = JStr n)"
proof -
  let ?r = "map_set a ''loading'' (JBool True)"
  let ?sel = "(case map_get sa ''selectedRover'' of
              JMap old \<Rightarrow> mergeDeep old ?r | _ \<Rightarrow> ?r)"
  have s: "map_get (mergeDeep sa (selectPatch a)) ''selectedRover'' = JMap ?sel"
    unfolding selectPatch_def merged_selected
    by (cases "map_get sa ''selectedRover''") simp_all
  have l: "map_get (mergeDeep (mergeDeep sa (selectPatch a)) (loadedPatch data)) ''selectedRover''
          = JMap (mergeKey ''loading'' (JBool False) ?sel)"
    unfolding loadedPatch_def merged_selected by (simp add: s)
  have "map_get ?sel ''name'' = JStr n"
    if "distinct (map fst a) \<and> map_get a ''name'' = JStr n" for n
  proof -
    from that have dr: "distinct (map fst ?r)" by (simp add: distinct_map_set)
    from that have "map_get ?r ''name'' = JStr n" by (simp add: map_get_map_set_other)
    with dr show ?thesis
      by (cases "map_get sa ''selectedRover''") (simp_all add: map_get_mergeDeep_JStr)
  qed
  with s l show ?thesis by blast
qed

lemma late_response_step:
  assumes "showRoverDetails w sa (JMap a) = Inr w1"
    and "showRoverDetails w1 sb (JMap b) = Inr w2"
  shows "resolveFetch w2 (length (inflight w)) data
     = bindE (generateAppContent (mergeDeep (mergeDeep sa (selectPatch a)) (loadedPatch data)))
         (\<lambda>html. Inr \<lparr>innerHTML = html,
                       current = mergeDeep (mergeDeep sa (selectPatch a)) (loadedPatch data),
                       inflight = inflight w @ [last (inflight w2)]\<rparr>)"
proof -
  let ?ma = "mergeDeep sa (selectPatch a)"
  from assms(1) obtain h1 sela where
    w1: "w1 = \<lparr>innerHTML = h1, current = ?ma,
           inflight = inflight w @
             [\<lparr>roverName = map_get sela ''name'', maxDate = map_get sela ''max_date'',
               callbackState = ?ma\<rparr>]\<rparr>"
    by (rule showRoverDetails_Inr)
  from assms(2) obtain h2 selb where
    w2: "w2 = \<lparr>innerHTML = h2, current = mergeDeep sb (selectPatch b),
           inflight = inflight w1 @
             [\<lparr>roverName = map_get selb ''name'', maxDate = map_get selb ''max_date'',
               callbackState = mergeDeep sb (selectPatch b)\<rparr>]\<rparr>"
    by (rule showRoverDetails_Inr)
  have len: "length (inflight w) < length (inflight w2)" by (simp add: w2 w1)
  have cb: "callbackState (inflight w2 ! length (inflight w)) = ?ma"
    by (simp add: w2 w1 nth_append)
  have rest: "take (length (inflight w)) (inflight w2) @ drop (Suc (length (inflight w))) (inflight w2)
                = inflight w @ [last (inflight w2)]"
    by (simp add: w2 w1)
  show ?thesis
    using len cb rest
    by (cases "generateAppContent (mergeDeep ?ma (loadedPatch data))")
       (simp_all add: resolveFetch_def photosLoaded_def updateApplicationState_def renderUI_def
         Let_def loadedPatch_def w2)
qed

lemma wf_loaded_good:
  "wf_state (mergeDeep (mergeDeep roversLoaded (selectPatch curiosity)) (loadedPatch goodResponse))"
  using wf_loaded_curiosity by (simp add: goodResponse_def)

lemma unreadable_throws:
  "generateAppContent
     (mergeDeep (mergeDeep roversLoaded (selectPatch curiosity)) (loadedPatch unreadableResponse))
   = Inl TypeError"
proof -
  let ?M = "mergeDeep (mergeDeep roversLoaded (selectPatch curiosity))
              (loadedPatch unreadableResponse)"
  have "map_get ?M ''selectedRoverGallery'' = unreadableResponse" by (rule captured_gallery)
  then have "galleryHtml ?M = Inl TypeError"
    by (simp add: galleryHtml_def unreadableResponse_def map_get_def createPhotoCard_def)
  then show ?thesis
    by (cases "roverCardsHtml ?M")
       (simp_all add: generateAppContent_def Let_def error_is_TypeError)
qed

text \<open>
  C4, as amended. For every state and every rover mapping \<open>R\<close>, a selection of \<open>R\<close>
  whose render succeeds produces a state in which \<open>selectedRoverGallery\<close> is \<open>false\<close>
  and \<open>selectedRover\<close> is, when the state already had a selected rover mapping, the deep
  merge of that mapping with \<open>R\<close> extended with \<open>loading = true\<close>, and otherwise
  (\<open>false\<close> or absent) \<open>R\<close> extended with \<open>loading = true\<close> itself. It triggers exactly
  one photo request, whose arguments are the name and the maximal date of that new
  \<open>selectedRover\<close>: they are \<open>R.name\<close> and \<open>R.max_date\<close> when the state had no
  selected rover mapping, and also whenever the keys of \<open>R\<close> are distinct and the two
  fields of \<open>R\<close> are strings.
\<close>

theorem select_rover:
  assumes "showRoverDetails w state (JMap rover) = Inr w'"
  shows "currentGallery w' = JBool False
       \<and> currentSelectedRover w'
           = (case map_get state ''selectedRover'' of
                JMap old \<Rightarrow> JMap (mergeDeep old (map_set rover ''loading'' (JBool True)))
              | _ \<Rightarrow> JMap (map_set rover ''loading'' (JBool True)))
       \<and> (\<exists>sel. currentSelectedRover w' = JMap sel
             \<and> inflight w' = inflight w @
                  [\<lparr>roverName = map_get sel ''name'', maxDate = map_get sel ''max_date'',
                    callbackState = current w'\<rparr>])
       \<and> (\<not> isMap (map_get state ''selectedRover'') \<longrightarrow>
             inflight w' = inflight w @
                  [\<lparr>roverName = map_get rover ''name'', maxDate = map_get rover ''max_date'',
                    callbackState = current w'\<rparr>])
       \<and> (\<forall>n d. distinct (map fst rover) \<and> map_get rover ''name'' = JStr n
                  \<and> map_get rover ''max_date'' = JStr d \<longrightarrow>
             inflight w' = inflight w @
                  [\<lparr>roverName = JStr n, maxDate = JStr d, callbackState = current w'\<rparr>])"
  using assms by (rule selection_effect)

theorem select_rover_witness:
  "\<exists>w'. showRoverDetails emptyPage roversLoaded (JMap curiosity) = Inr w'
     \<and> \<not> isMap (map_get roversLoaded ''selectedRover'')
     \<and> distinct (map fst curiosity)
     \<and> map_get curiosity ''name'' = JStr ''Curiosity''
     \<and> map_get curiosity ''max_date'' = JStr ''2024-02-19''
     \<and> currentGallery w' = JBool False
     \<and> currentSelectedRover w' = JMap (map_set curiosity ''loading'' (JBool True))
     \<and> inflight w' = [\<lparr>roverName = JStr ''Curiosity'', maxDate = JStr ''2024-02-19'',
                        callbackState = current w'\<rparr>]"
proof -
  from showRoverDetails_ok [OF wf_select_curiosity]
  obtain w' where r: "showRoverDetails emptyPage roversLoaded (JMap curiosity) = Inr w'"
    by blast
  have s: "map_get roversLoaded ''selectedRover'' = JBool False"
    by (simp add: roversLoaded_def map_get_def)
  from select_rover [OF r] s distinct_curiosity curiosity_name curiosity_max_date
  have "currentGallery w' = JBool False
     \<and> currentSelectedRover w' = JMap (map_set curiosity ''loading'' (JBool True))
     \<and> inflight w' = inflight emptyPage @ [\<lparr>roverName = JStr ''Curiosity'',
          maxDate = JStr ''2024-02-19'', callbackState = current w'\<rparr>]"
    by simp
  with r s distinct_curiosity curiosity_name curiosity_max_date show ?thesis
    by (auto simp: emptyPage_def)
qed

text \<open>
  C4 as stated fails when a rover is already selected: selecting Spirit on the state in
  which Curiosity is loaded deep-merges the two rovers, and the camera list of the result
  holds the cameras of both, so \<open>selectedRover\<close> is not Spirit extended with
  \<open>loading = true\<close>. (Under the index-wise list merge of Immutable 3 the second camera
  of Curiosity stays behind Spirit's, and the result differs from Spirit as well.)
\<close>

theorem reselect_merges_rovers:
  "\<not> isl (showRoverDetails emptyPage curiosityLoaded (JMap spirit))
   \<and> map_sum id currentSelectedRover (showRoverDetails emptyPage curiosityLoaded (JMap spirit))
       \<noteq> Inr (JMap (map_set spirit ''loading'' (JBool True)))"
proof -
  from showRoverDetails_ok [OF wf_reselect]
  obtain w' where r: "showRoverDetails emptyPage curiosityLoaded (JMap spirit) = Inr w'"
    by blast
  have s: "map_get curiosityLoaded ''selectedRover''
             = JMap (map_set curiosity ''loading'' (JBool False))"
    by (simp add: curiosityLoaded_def map_get_def)
  from selection_effect [OF r] s
  have "currentSelectedRover w'
          = JMap (mergeDeep (map_set curiosity ''loading'' (JBool False))
                    (map_set spirit ''loading'' (JBool True)))"
    by simp
  moreover have "map_get (mergeDeep (map_set curiosity ''loading'' (JBool False))
                    (map_set spirit ''loading'' (JBool True))) ''cameras''
      = JList [JMap [(''name'', JStr ''FHAZ'')], JMap [(''name'', JStr ''MAST'')],
               JMap [(''name'', JStr ''PANCAM'')]]"
    by (simp add: curiosity_def spirit_def map_get_def)
  moreover have "map_get (map_set spirit ''loading'' (JBool True)) ''cameras''
      = JList [JMap [(''name'', JStr ''PANCAM'')]]"
    by (simp add: spirit_def map_get_def)
  ultimately have "currentSelectedRover w' \<noteq> JMap (map_set spirit ''loading'' (JBool True))"
    by auto
  with r show ?thesis by simp
qed

text \<open>
  C1, as amended. The client has no guard against a stale response. For every execution in
  which rover \<open>A\<close>, a mapping, is selected and its selection renders, rover \<open>B\<close>, a
  mapping, is selected and rendered before the photo request for \<open>A\<close> resolves, and the
  request for \<open>A\<close> then resolves with any response: the current state is the one of the
  selection of \<open>B\<close>, which the request for \<open>B\<close> holds, and the callback of \<open>A\<close> merges the
  Loaded patch into the state the request for \<open>A\<close> was issued from, the state of the
  selection of \<open>A\<close>, and renders the result. If rendering that merged state throws, the
  update throws the same error and renders nothing. Otherwise, after the response is
  processed the root holds that render, the current state is exactly that merged state,
  the request for \<open>B\<close> is still in flight behind the earlier ones, the current gallery is
  the response for \<open>A\<close>, and, when the keys of \<open>A\<close> are distinct and its name is a
  string, the current \<open>selectedRover.name\<close> is the name of \<open>A\<close>, whatever \<open>B\<close> is.
\<close>

theorem late_response_overwrites:
  assumes "showRoverDetails w sa (JMap a) = Inr w1"
    and "showRoverDetails w1 sb (JMap b) = Inr w2"
  shows "current w2 = mergeDeep sb (selectPatch b)
       \<and> callbackState (last (inflight w2)) = mergeDeep sb (selectPatch b)
       \<and> (\<forall>e. generateAppContent (mergeDeep (mergeDeep sa (selectPatch a)) (loadedPatch data)) = Inl e
            \<longrightarrow> resolveFetch w2 (length (inflight w)) data = Inl e)
       \<and> (\<forall>html. generateAppContent (mergeDeep (mergeDeep sa (selectPatch a)) (loadedPatch data))
                    = Inr html
            \<longrightarrow> (\<exists>w'. resolveFetch w2 (length (inflight w)) data = Inr w'
                   \<and> innerHTML w' = html
                   \<and> current w' = mergeDeep (mergeDeep sa (selectPatch a)) (loadedPatch data)
                   \<and> inflight w' = inflight w @ [last (inflight w2)]
                   \<and> currentGallery w' = data
                   \<and> (\<forall>n. distinct (map fst a) \<and> map_get a ''name'' = JStr n
                          \<longrightarrow> currentSelectedName w' = JStr n)))"
proof -
  let ?M = "mergeDeep (mergeDeep sa (selectPatch a)) (loadedPatch data)"
  note step = late_response_step [OF assms, of data]
  have 1: "resolveFetch w2 (length (inflight w)) data = Inl e"
    if "generateAppContent ?M = Inl e" for e
    using step that by simp
  have 2: "\<exists>w'. resolveFetch w2 (length (inflight w)) data = Inr w'
                   \<and> innerHTML w' = html
                   \<and> current w' = ?M
                   \<and> inflight w' = inflight w @ [last (inflight w2)]
                   \<and> currentGallery w' = data
                   \<and> (\<forall>n. distinct (map fst a) \<and> map_get a ''name'' = JStr n
                          \<longrightarrow> currentSelectedName w' = JStr n)"
    if "generateAppContent ?M = Inr html" for html
  proof -
    let ?w = "\<lparr>innerHTML = html, current = ?M, inflight = inflight w @ [last (inflight w2)]\<rparr>"
    from step that have r: "resolveFetch w2 (length (inflight w)) data = Inr ?w" by simp
    have g: "currentGallery ?w = data"
      by (simp add: currentGallery_def captured_gallery)
    from captured_selected [of sa a data] obtain sel where
      l: "map_get ?M ''selectedRover'' = JMap (mergeKey ''loading'' (JBool False) sel)"
      and n: "\<forall>n. distinct (map fst a) \<and> map_get a ''name'' = JStr n \<longrightarrow>
            map_get sel ''name'' = JStr n"
      by blast
    have "currentSelectedName ?w = map_get sel ''name''"
      by (simp add: currentSelectedName_def currentSelectedRover_def l map_get_mergeKey_other)
    with n have "\<forall>n. distinct (map fst a) \<and> map_get a ''name'' = JStr n
                          \<longrightarrow> currentSelectedName ?w = JStr n"
      by simp
    with r g show ?thesis by (intro exI [of _ ?w]) simp
  qed
  from assms(2) obtain h2 selb where
    "w2 = \<lparr>innerHTML = h2, current = mergeDeep sb (selectPatch b),
           inflight = inflight w1 @
             [\<lparr>roverName = map_get selb ''name'', maxDate = map_get selb ''max_date'',
               callbackState = mergeDeep sb (selectPatch b)\<rparr>]\<rparr>"
    by (rule showRoverDetails_Inr)
  then have 0: "current w2 = mergeDeep sb (selectPatch b)"
    "callbackState (last (inflight w2)) = mergeDeep sb (selectPatch b)"
    by simp_all
  from 0 1 2 show ?thesis by blast
qed

theorem late_response_overwrites_witness:
  "\<exists>w1 w2 w'.
      showRoverDetails emptyPage roversLoaded (JMap curiosity) = Inr w1
    \<and> showRoverDetails w1 (mergeDeep roversLoaded (selectPatch curiosity)) (JMap spirit) = Inr w2
    \<and> distinct (map fst curiosity)
    \<and> map_get curiosity ''name'' = JStr ''Curiosity''
    \<and> resolveFetch w2 0 goodResponse = Inr w'
    \<and> current w'
        = mergeDeep (mergeDeep roversLoaded (selectPatch curiosity)) (loadedPatch goodResponse)
    \<and> currentGallery w' = goodResponse
    \<and> currentSelectedName w' = JStr ''Curiosity''
    \<and> generateAppContent
         (mergeDeep (mergeDeep roversLoaded (selectPatch curiosity))
            (loadedPatch unreadableResponse)) = Inl TypeError
    \<and> resolveFetch w2 0 unreadableResponse = Inl TypeError"
proof -
  from showRoverDetails_ok [OF wf_select_curiosity]
  obtain w1 where 1: "showRoverDetails emptyPage roversLoaded (JMap curiosity) = Inr w1"
    by blast
  from showRoverDetails_ok [OF wf_select_spirit]
  obtain w2 where 2: "showRoverDetails w1 (mergeDeep roversLoaded (selectPatch curiosity))
                        (JMap spirit) = Inr w2"
    by blast
  from generateAppContent_ok [OF wf_loaded_good] obtain html where
    h: "generateAppContent (mergeDeep (mergeDeep roversLoaded (selectPatch curiosity))
          (loadedPatch goodResponse)) = Inr html" by blast
  have z: "length (inflight emptyPage) = 0" by (simp add: emptyPage_def)
  from late_response_overwrites [OF 1 2, of goodResponse] h z
  obtain w' where
    "resolveFetch w2 0 goodResponse = Inr w'"
    "current w'
        = mergeDeep (mergeDeep roversLoaded (selectPatch curiosity)) (loadedPatch goodResponse)"
    "currentGallery w' = goodResponse"
    "\<forall>n. distinct (map fst curiosity) \<and> map_get curiosity ''name'' = JStr n
                          \<longrightarrow> currentSelectedName w' = JStr n"
    by auto
  moreover from late_response_overwrites [OF 1 2, of unreadableResponse] unreadable_throws z
  have "resolveFetch w2 0 unreadableResponse = Inl TypeError" by auto
  ultimately show ?thesis
    using 1 2 distinct_curiosity curiosity_name unreadable_throws by blast
qed

text \<open>
  C1 as stated fails: Curiosity is selected, Spirit is selected before the photos of
  Curiosity arrive, and when they arrive the name of the selected rover is not that of
  Spirit.
\<close>

theorem late_response_replaces_newer_selection:
  "\<not> isl (selectionRace emptyPage roversLoaded (JMap curiosity)
            (mergeDeep roversLoaded (selectPatch curiosity)) (JMap spirit)
            (JMap [(''photos'', JList [])]))
   \<and> map_sum id currentSelectedName
        (selectionRace emptyPage roversLoaded (JMap curiosity)
            (mergeDeep roversLoaded (selectPatch curiosity)) (JMap spirit)
            (JMap [(''photos'', JList [])]))
       \<noteq> Inr (map_get spirit ''name'')"
proof -
  have "wf_state (mergeDeep (mergeDeep roversLoaded (selectPatch curiosity))
               (loadedPatch (JMap [(''photos'', JList [])])))"
    by (simp add: wf_state_def roversLoaded_def selectPatch_def loadedPatch_def curiosity_def
      spirit_def map_get_def)
  from selectionRace_ok [OF wf_select_curiosity wf_select_spirit this]
  obtain w' where r: "selectionRace emptyPage roversLoaded (JMap curiosity)
            (mergeDeep roversLoaded (selectPatch curiosity)) (JMap spirit)
            (JMap [(''photos'', JList [])]) = Inr w'" by blast
  from late_response_effect [OF r distinct_curiosity curiosity_name]
  have "currentSelectedName w' = JStr ''Curiosity''" by simp
  moreover have "map_get spirit ''name'' = JStr ''Spirit''"
    by (simp add: spirit_def map_get_def)
  ultimately show ?thesis by (simp add: r)
qed

end
